theory Spec2Isabelle
  imports Complex_Main
begin

section \<open>The evaluation script of the rice environment\<close>

text \<open>
  A shallow embedding of \<^verbatim>\<open>code/scripts/evaluate_submission.py\<close>.
  Every function of the script is a HOL function of the same name. What the script asks
  of the outside (the file system, the unit-test subprocess, the two training modules,
  the YAML parser, the trainer object) is a field of an environment record, and every
  raise of the script or of a collaborator is a value of the result. The exceptions of the
  model are the instances of Python's \<^verbatim>\<open>Exception\<close>, which is what every
  handler of the script catches.
\<close>

subsection \<open>Python values\<close>

datatype py_exception =
    AssertionError
  | UnboundLocalError
  | KeyError string
  | IndexError
  | ValueError string
  | OverflowError
  | OSError string
  | CalledProcessError
  | ImportError string
  | YAMLError string
  | RuntimeError string

text \<open>
  A double as numpy holds it: a finite value (every finite double is a rational), or one
  of the three values that are not finite.
\<close>

datatype np_float = Finite rat | NaN | PosInf | NegInf

text \<open>What a metric is reported as: a Python \<^verbatim>\<open>int\<close> or a numpy double.\<close>

datatype py_value = PyInt int | NpFloat np_float

type_synonym array = "np_float list list"

type_synonym episode_state = "string \<Rightarrow> array option"

type_synonym metrics = "string \<Rightarrow> py_value option"

text \<open>
  The operations of numpy whose result on doubles carries a rounding error are parameters
  of the model: the sum of an array, the mean of a list of scalars, the difference of two
  scalars, and rounding to a positive number of decimal places (numpy scales by a power
  of ten, rounds and scales back, all in doubles).
\<close>

record numpy =
  np_sum :: "array \<Rightarrow> np_float"
  np_mean :: "np_float list \<Rightarrow> np_float"
  np_subtract :: "np_float \<Rightarrow> np_float \<Rightarrow> np_float"
  np_round_places :: "np_float \<Rightarrow> nat \<Rightarrow> np_float"

text \<open>
  Rounding to zero decimal places is numpy's \<^verbatim>\<open>rint\<close>: the nearest integer,
  a tie going to the even one. It is exact on doubles, and leaves a value that is not
  finite as it is.
\<close>

definition round_half_even :: "rat \<Rightarrow> int" where
  "round_half_even q =
     (let f = \<lfloor>q\<rfloor>; r = q - of_int f
      in if r < 1 / 2 then f else if 1 / 2 < r then f + 1 else if even f then f else f + 1)"

fun np_rint :: "np_float \<Rightarrow> np_float" where
  "np_rint (Finite q) = Finite (of_int (round_half_even q))"
| "np_rint v = v"

definition np_round :: "numpy \<Rightarrow> np_float \<Rightarrow> nat \<Rightarrow> np_float" where
  "np_round np v decimals = (if decimals = 0 then np_rint v else np_round_places np v decimals)"

text \<open>
  Python's \<^verbatim>\<open>int(x)\<close> on a double: truncation towards zero; it raises
  ValueError on NaN and OverflowError on an infinity.
\<close>

fun py_int :: "np_float \<Rightarrow> py_exception + int" where
  "py_int (Finite q) = Inr (if 0 \<le> q then \<lfloor>q\<rfloor> else \<lceil>q\<rceil>)"
| "py_int NaN = Inl (ValueError ''cannot convert float NaN to integer'')"
| "py_int PosInf = Inl OverflowError"
| "py_int NegInf = Inl OverflowError"

text \<open>
  Python's builtin \<^verbatim>\<open>round(x)\<close> with one argument, in the words of its
  documentation: the closest integer, and the even one when two are equally close.
  This is the reference that \<open>perform_format\<close> with zero places is compared with.
\<close>

definition py_round :: "rat \<Rightarrow> int" where
  "py_round q =
     (let n = \<lfloor>q + 1 / 2\<rfloor>
      in if of_int n = q + 1 / 2 \<and> odd n then n - 1 else n)"

text \<open>Indexing \<^verbatim>\<open>a[i, j]\<close> of a two-dimensional array; a negative index counts from the end.\<close>

definition normalize_index :: "nat \<Rightarrow> int \<Rightarrow> py_exception + nat" where
  "normalize_index n i =
     (let j = (if i < 0 then int n + i else i)
      in if 0 \<le> j \<and> j < int n then Inr (nat j) else Inl IndexError)"

definition index2 :: "array \<Rightarrow> int \<Rightarrow> int \<Rightarrow> py_exception + np_float" where
  "index2 a i j =
     (case normalize_index (length a) i of
        Inl e \<Rightarrow> Inl e
      | Inr r \<Rightarrow>
          (case normalize_index (length (a ! r)) j of
             Inl e \<Rightarrow> Inl e
           | Inr c \<Rightarrow> Inr (a ! r ! c)))"

text \<open>Subscription \<^verbatim>\<open>d[k]\<close> of a dictionary with string keys.\<close>

definition getitem :: "(string \<Rightarrow> 'v option) \<Rightarrow> string \<Rightarrow> py_exception + 'v" where
  "getitem d k = (case d k of None \<Rightarrow> Inl (KeyError k) | Some v \<Rightarrow> Inr v)"

text \<open>\<^verbatim>\<open>os.path.join\<close> of two components, on POSIX.\<close>

definition path_join :: "string \<Rightarrow> string \<Rightarrow> string" where
  "path_join a b =
     (if b \<noteq> [] \<and> hd b = CHR ''/'' then b
      else if a = [] \<or> last a = CHR ''/'' then a @ b
      else a @ ''/'' @ b)"

text \<open>How an f-string prints a value that is a string or \<^verbatim>\<open>None\<close>.\<close>

definition format_str :: "string option \<Rightarrow> string" where
  "format_str s = (case s of None \<Rightarrow> ''None'' | Some t \<Rightarrow> t)"

subsection \<open>Module constants\<close>

definition METRICS_TO_LABEL_DICT :: "(string \<times> string \<times> int) list" where
  "METRICS_TO_LABEL_DICT =
     [(''reward_all_regions'', ''Total Episode Reward'', 2),
      (''global_temperature'', ''Global Temperature Rise'', 2),
      (''global_carbon_mass'', ''Global Carbon Mass'', 0),
      (''capital_all_regions'', ''Total Capital'', 0),
      (''production_all_regions'', ''Total Production'', 0),
      (''gross_output_all_regions'', ''Total Gross Output'', 0),
      (''investment_all_regions'', ''Total Investment'', 0),
      (''abatement_cost_all_regions'', ''Total Abatement Cost'', 2)]"

subsection \<open>The outside world\<close>

text \<open>
  \<^verbatim>\<open>fetch_episode_states(trainer, desired_outputs)\<close> rolls one episode out. It
  may change the trainer, also when it raises, so it returns the trainer with its result.
\<close>

type_synonym 'tr fetch_fn =
  "'tr \<Rightarrow> string list \<Rightarrow> (py_exception + episode_state) \<times> 'tr"

text \<open>
  What a training module gives: the three functions that \<open>get_imports\<close> returns, and
  the \<^verbatim>\<open>graceful_close\<close> method of the trainers it creates.
\<close>

record ('cfg, 'tr) backend =
  create_trainer :: "'cfg \<Rightarrow> int option \<Rightarrow> py_exception + 'tr"
  load_model_checkpoints :: "'tr \<Rightarrow> string \<Rightarrow> py_exception option \<times> 'tr"
  fetch_episode_states :: "'tr fetch_fn"
  graceful_close :: "'tr \<Rightarrow> py_exception option \<times> 'tr"

text \<open>
  The environment of one run. Apart from \<open>fetch_episode_states\<close>, the script calls each
  of these at most once in a run, so a field gives the outcome of that call.
\<close>

record ('cfg, 'tr) env =
  listdir :: "string \<Rightarrow> py_exception + string list"
  run_unittests :: "string \<Rightarrow> py_exception option"
  import_module :: "string \<Rightarrow> py_exception + ('cfg, 'tr) backend"
  path_exists :: "string \<Rightarrow> bool"
  open_file :: "string \<Rightarrow> py_exception + string"
  yaml_safe_load :: "string \<Rightarrow> py_exception + 'cfg"

text \<open>The calls to the outside that a run of \<open>perform_evaluation\<close> makes, in order.\<close>

datatype event =
    Listdir
  | RunUnittests
  | GetImports
  | PathExists
  | OpenFile
  | SafeLoad
  | CreateTrainer
  | LoadModelCheckpoints
  | ComputeMetrics
  | GracefulClose

subsection \<open>get_imports\<close>

definition get_imports ::
  "('cfg, 'tr) env \<Rightarrow> string option \<Rightarrow> py_exception + ('cfg, 'tr) backend" where
  "get_imports env framework =
     (case framework of
        None \<Rightarrow> Inl AssertionError
      | Some fw \<Rightarrow>
          if fw = ''rllib'' then import_module env ''train_with_rllib''
          else if fw = ''warpdrive'' then import_module env ''train_with_warp_drive''
          else Inl (ValueError (''Unknown framework '' @ fw @ ''!'')))"

subsection \<open>validate_dir\<close>

definition warpdrive_files :: "string list" where
  "warpdrive_files =
     [''rice.py'', ''rice_helpers.py'', ''rice_cuda.py'', ''rice_step.cu'', ''rice_warpdrive.yaml'']"

definition rllib_files :: "string list" where
  "rllib_files = [''rice.py'', ''rice_helpers.py'', ''rice_rllib.yaml'']"

text \<open>
  The loop over the required files. Its state is the pair of \<^verbatim>\<open>success\<close> and
  \<^verbatim>\<open>comment\<close>, unbound (\<open>None\<close>) before the first iteration; a missing file
  sets it and leaves the loop.
\<close>

fun check_files ::
  "string list \<Rightarrow> string list \<Rightarrow> (bool \<times> string) option \<Rightarrow> (bool \<times> string) option" where
  "check_files files [] st = st"
| "check_files files (file # rest) st =
     (if file \<notin> set files
      then Some (False, file @ '' is not present in the results directory!'')
      else check_files files rest (Some (True, ''Valid submission'')))"

definition validate_dir ::
  "('cfg, 'tr) env \<Rightarrow> string option \<Rightarrow> py_exception + (string option \<times> bool \<times> string)" where
  "validate_dir env results_dir =
     (case results_dir of
        None \<Rightarrow> Inl AssertionError
      | Some rd \<Rightarrow>
          (case listdir env rd of
             Inl e \<Rightarrow> Inl e
           | Inr files \<Rightarrow>
               if ''.warpdrive'' \<in> set files then
                 (case check_files files warpdrive_files None of
                    None \<Rightarrow> Inl UnboundLocalError
                  | Some (success, comment) \<Rightarrow> Inr (Some ''warpdrive'', success, comment))
               else if ''.rllib'' \<in> set files then
                 (case check_files files rllib_files None of
                    None \<Rightarrow> Inl UnboundLocalError
                  | Some (success, comment) \<Rightarrow> Inr (Some ''rllib'', success, comment))
               else Inr (None, False, ''Missing identifier file!'')))"

subsection \<open>perform_format\<close>

definition perform_format :: "numpy \<Rightarrow> np_float \<Rightarrow> int \<Rightarrow> py_exception + py_value" where
  "perform_format np val num_decimal_places =
     (if \<not> 0 \<le> num_decimal_places then Inl AssertionError
      else
        let rounded_val = np_round np val (nat num_decimal_places)
        in if num_decimal_places = 0
           then (case py_int rounded_val of Inl e \<Rightarrow> Inl e | Inr i \<Rightarrow> Inr (PyInt i))
           else Inr (NpFloat rounded_val))"

subsection \<open>compute_metrics\<close>

text \<open>
  The first loop: one call of the fetch function per episode. The dictionary
  \<^verbatim>\<open>episode_states\<close>, whose keys are \<^verbatim>\<open>0, ..., num_episodes - 1\<close> in
  this order, is the list of its values.
\<close>

fun fetch_loop ::
  "'tr fetch_fn \<Rightarrow> string list \<Rightarrow> nat \<Rightarrow> 'tr \<Rightarrow> episode_state list
     \<Rightarrow> (py_exception + episode_state list) \<times> 'tr" where
  "fetch_loop fetch desired_outputs 0 trainer episode_states = (Inr episode_states, trainer)"
| "fetch_loop fetch desired_outputs (Suc k) trainer episode_states =
     (case fetch trainer desired_outputs of
        (Inl e, trainer') \<Rightarrow> (Inl e, trainer')
      | (Inr st, trainer') \<Rightarrow> fetch_loop fetch desired_outputs k trainer' (episode_states @ [st]))"

text \<open>A loop that fills a list, one value per episode, and stops at the first raise.\<close>

fun collect :: "('a \<Rightarrow> py_exception + 'b) \<Rightarrow> 'a list \<Rightarrow> py_exception + 'b list" where
  "collect f [] = Inr []"
| "collect f (x # xs) =
     (case f x of
        Inl e \<Rightarrow> Inl e
      | Inr y \<Rightarrow> (case collect f xs of Inl e \<Rightarrow> Inl e | Inr ys \<Rightarrow> Inr (y # ys)))"

text \<open>The three inner loops over the episodes, chosen by the feature.\<close>

definition feature_values_of ::
  "numpy \<Rightarrow> string \<Rightarrow> episode_state list \<Rightarrow> py_exception + np_float list" where
  "feature_values_of np feature episode_states =
     (if feature = ''global_temperature'' then
        collect (\<lambda>st.
          case getitem st feature of
            Inl e \<Rightarrow> Inl e
          | Inr a \<Rightarrow>
              (case index2 a (- 1) 0 of
                 Inl e \<Rightarrow> Inl e
               | Inr final \<Rightarrow>
                   (case index2 a 0 0 of
                      Inl e \<Rightarrow> Inl e
                    | Inr initial \<Rightarrow> Inr (np_subtract np final initial)))) episode_states
      else if feature = ''global_carbon_mass'' then
        collect (\<lambda>st.
          case getitem st feature of
            Inl e \<Rightarrow> Inl e
          | Inr a \<Rightarrow> index2 a (- 1) 0) episode_states
      else
        collect (\<lambda>st.
          case getitem st feature of
            Inl e \<Rightarrow> Inl e
          | Inr a \<Rightarrow> Inr (np_sum np a)) episode_states)"

text \<open>
  The loop over the features. Its state is \<^verbatim>\<open>eval_metrics\<close>; a raise leaves the
  loop with the exception and with the metrics stored so far.
\<close>

fun features_loop ::
  "numpy \<Rightarrow> episode_state list \<Rightarrow> string list \<Rightarrow> metrics \<Rightarrow> py_exception option \<times> metrics" where
  "features_loop np episode_states [] eval_metrics = (None, eval_metrics)"
| "features_loop np episode_states (feature # rest) eval_metrics =
     (case feature_values_of np feature episode_states of
        Inl e \<Rightarrow> (Some e, eval_metrics)
      | Inr feature_values \<Rightarrow>
          let mean_feature_value = np_mean np feature_values
          in (case getitem (map_of METRICS_TO_LABEL_DICT) feature of
                Inl e \<Rightarrow> (Some e, eval_metrics)
              | Inr (label, places) \<Rightarrow>
                  (case perform_format np mean_feature_value places of
                     Inl e \<Rightarrow> (Some e, eval_metrics)
                   | Inr v \<Rightarrow>
                       features_loop np episode_states rest (eval_metrics(label \<mapsto> v)))))"

text \<open>
  The body of the \<^verbatim>\<open>try\<close> statement: the exception that left it, if any, the
  metrics stored at that moment, and the trainer.
\<close>

definition compute_metrics_try ::
  "numpy \<Rightarrow> 'tr fetch_fn \<Rightarrow> 'tr \<Rightarrow> int \<Rightarrow> (py_exception option \<times> metrics) \<times> 'tr" where
  "compute_metrics_try np fetch trainer num_episodes =
     (let desired_outputs = map fst METRICS_TO_LABEL_DICT
      in case fetch_loop fetch desired_outputs (nat num_episodes) trainer [] of
           (Inl e, trainer') \<Rightarrow> ((Some e, Map.empty), trainer')
         | (Inr episode_states, trainer') \<Rightarrow>
             (features_loop np episode_states desired_outputs Map.empty, trainer'))"

definition available_frameworks :: "string option list" where
  "available_frameworks = [Some ''rllib'', Some ''warpdrive'']"

definition compute_metrics ::
  "numpy \<Rightarrow> 'tr fetch_fn option \<Rightarrow> 'tr option \<Rightarrow> string option \<Rightarrow> int
     \<Rightarrow> py_exception + ((bool \<times> string \<times> metrics) \<times> 'tr)" where
  "compute_metrics np fetch_episode_states' trainer framework num_episodes =
     (case fetch_episode_states' of
        None \<Rightarrow> Inl AssertionError
      | Some fetch \<Rightarrow>
          (case trainer of
             None \<Rightarrow> Inl AssertionError
           | Some tr \<Rightarrow>
               if framework \<notin> set available_frameworks then Inl AssertionError
               else
                 (case compute_metrics_try np fetch tr num_episodes of
                    ((None, eval_metrics), tr') \<Rightarrow>
                      Inr ((True, ''Successful submission'', eval_metrics), tr')
                  | ((Some err, eval_metrics), tr') \<Rightarrow>
                      Inr ((False, ''Could not obtain an episode rollout!'', Map.empty), tr'))))"

text \<open>
  The per-episode scalar of a feature as the specification words it: for
  \<^verbatim>\<open>global_temperature\<close> the last value of column 0 minus the first, for
  \<^verbatim>\<open>global_carbon_mass\<close> the last value of column 0, for every other feature
  the sum over the whole array.
\<close>

definition episode_scalar :: "numpy \<Rightarrow> string \<Rightarrow> array \<Rightarrow> py_exception + np_float" where
  "episode_scalar np feature a =
     (if feature = ''global_temperature'' then
        (case (index2 a (- 1) 0, index2 a 0 0) of
           (Inr final, Inr initial) \<Rightarrow> Inr (np_subtract np final initial)
         | _ \<Rightarrow> Inl IndexError)
      else if feature = ''global_carbon_mass'' then index2 a (- 1) 0
      else Inr (np_sum np a))"

subsection \<open>perform_evaluation\<close>

type_synonym eval_result = "string option \<times> bool \<times> metrics \<times> string"

text \<open>
  Beside what it returns or raises, a run is described by the calls it has made to the
  outside and by the trainer object as the run leaves it (\<open>None\<close> when no trainer was
  created).
\<close>

definition perform_evaluation ::
  "('cfg, 'tr) env \<Rightarrow> numpy \<Rightarrow> string option \<Rightarrow> int \<Rightarrow> int option
     \<Rightarrow> (py_exception + eval_result) \<times> event list \<times> 'tr option" where
  "perform_evaluation env np results_dir num_episodes eval_seed =
     (case results_dir of
        None \<Rightarrow> (Inl AssertionError, [], None)
      | Some rd \<Rightarrow>
        let eval_metrics = Map.empty in
        if \<not> 0 < num_episodes then (Inl AssertionError, [], None)
        else
          (case validate_dir env results_dir of
             Inl e \<Rightarrow> (Inl e, [Listdir], None)
           | Inr (framework, success, comment) \<Rightarrow>
             if \<not> success then (Inr (framework, success, eval_metrics, comment), [Listdir], None)
             else
               (case run_unittests env rd of
                  Some e \<Rightarrow>
                    (Inr (framework, False, eval_metrics, ''Unit tests were not successful.''),
                     [Listdir, RunUnittests], None)
                | None \<Rightarrow>
                  (case get_imports env framework of
                     Inl e \<Rightarrow>
                       (Inr (framework, False, eval_metrics, ''Unit tests were not successful.''),
                        [Listdir, RunUnittests, GetImports], None)
                   | Inr b \<Rightarrow>
                     let config_file = path_join rd (''rice_'' @ format_str framework @ ''.yaml'') in
                     if \<not> path_exists env config_file then
                       (Inr (framework, False, eval_metrics,
                             ''The run configuration is missing in '' @ rd @ ''.''),
                        [Listdir, RunUnittests, GetImports, PathExists], None)
                     else
                       (case open_file env config_file of
                          Inl e \<Rightarrow>
                            (Inr (framework, False, eval_metrics, ''Unit tests were not successful.''),
                             [Listdir, RunUnittests, GetImports, PathExists, OpenFile], None)
                        | Inr file_ptr \<Rightarrow>
                          (case yaml_safe_load env file_ptr of
                             Inl e \<Rightarrow>
                               (Inr (framework, False, eval_metrics,
                                     ''Unit tests were not successful.''),
                                [Listdir, RunUnittests, GetImports, PathExists, OpenFile, SafeLoad], None)
                           | Inr run_config \<Rightarrow>
                             (case create_trainer b run_config eval_seed of
                                Inl e \<Rightarrow>
                                  (Inr (framework, False, eval_metrics,
                                        ''Could not create trainer with the run_config provided.''),
                                   [Listdir, RunUnittests, GetImports, PathExists, OpenFile,
                                    SafeLoad, CreateTrainer], None)
                              | Inr trainer \<Rightarrow>
                                (case load_model_checkpoints b trainer rd of
                                   (Some e, trainer1) \<Rightarrow>
                                     (Inr (framework, False, eval_metrics,
                                           ''Could not load model checkpoints.''),
                                      [Listdir, RunUnittests, GetImports, PathExists, OpenFile,
                                       SafeLoad, CreateTrainer, LoadModelCheckpoints], Some trainer1)
                                 | (None, trainer1) \<Rightarrow>
                                   (case compute_metrics np (Some (fetch_episode_states b))
                                           (Some trainer1) framework num_episodes of
                                      Inl e \<Rightarrow>
                                        (Inr (framework, False, eval_metrics,
                                              ''Count not fetch episode and compute metrics.''),
                                         [Listdir, RunUnittests, GetImports, PathExists, OpenFile,
                                          SafeLoad, CreateTrainer, LoadModelCheckpoints,
                                          ComputeMetrics], Some trainer1)
                                    | Inr ((success2, comment2, eval_metrics2), trainer2) \<Rightarrow>
                                        if framework = Some ''warpdrive'' then
                                          (case graceful_close b trainer2 of
                                             (Some e, trainer3) \<Rightarrow>
                                               (Inr (framework, False, eval_metrics2,
                                                     ''Count not fetch episode and compute metrics.''),
                                                [Listdir, RunUnittests, GetImports, PathExists,
                                                 OpenFile, SafeLoad, CreateTrainer,
                                                 LoadModelCheckpoints, ComputeMetrics, GracefulClose], Some trainer3)
                                           | (None, trainer3) \<Rightarrow>
                                               (Inr (framework, success2, eval_metrics2, comment2),
                                                [Listdir, RunUnittests, GetImports, PathExists,
                                                 OpenFile, SafeLoad, CreateTrainer,
                                                 LoadModelCheckpoints, ComputeMetrics, GracefulClose], Some trainer3))
                                        else
                                          (Inr (framework, success2, eval_metrics2, comment2),
                                           [Listdir, RunUnittests, GetImports, PathExists, OpenFile,
                                            SafeLoad, CreateTrainer, LoadModelCheckpoints,
                                            ComputeMetrics], Some trainer2))))))))))"

subsection \<open>A concrete world for running the definitions\<close>

text \<open>
  Exact arithmetic on the finite values, with the IEEE rules for the values that are not
  finite. On doubles whose sums, differences and quotients are doubles again (small
  integers and binary fractions), this is what numpy computes.
\<close>

fun exact_add :: "np_float \<Rightarrow> np_float \<Rightarrow> np_float" where
  "exact_add NaN y = NaN"
| "exact_add x NaN = NaN"
| "exact_add (Finite a) (Finite b) = Finite (a + b)"
| "exact_add (Finite a) y = y"
| "exact_add x (Finite b) = x"
| "exact_add PosInf NegInf = NaN"
| "exact_add NegInf PosInf = NaN"
| "exact_add x y = x"

fun exact_neg :: "np_float \<Rightarrow> np_float" where
  "exact_neg (Finite a) = Finite (- a)"
| "exact_neg NaN = NaN"
| "exact_neg PosInf = NegInf"
| "exact_neg NegInf = PosInf"

fun exact_div_count :: "np_float \<Rightarrow> nat \<Rightarrow> np_float" where
  "exact_div_count (Finite a) n = (if n = 0 then NaN else Finite (a / of_nat n))"
| "exact_div_count v n = v"

fun exact_round_places :: "np_float \<Rightarrow> nat \<Rightarrow> np_float" where
  "exact_round_places (Finite q) k = Finite (of_int (round_half_even (q * 10 ^ k)) / 10 ^ k)"
| "exact_round_places v k = v"

definition exact_numpy :: numpy where
  "exact_numpy =
     \<lparr>np_sum = (\<lambda>a. foldl exact_add (Finite 0) (concat a)),
      np_mean = (\<lambda>xs. exact_div_count (foldl exact_add (Finite 0) xs) (length xs)),
      np_subtract = (\<lambda>x y. exact_add x (exact_neg y)),
      np_round_places = exact_round_places\<rparr>"

text \<open>
  A trainer that counts the episodes it has rolled out. Episode \<open>k\<close> gives every
  feature asked for the array \<open>[[k, 2], [3, 4.5]]\<close>.
\<close>

definition example_fetch :: "nat fetch_fn" where
  "example_fetch trainer desired_outputs =
     (Inr (\<lambda>feature.
        if feature \<in> set desired_outputs
        then Some [[Finite (of_nat trainer), Finite 2], [Finite 3, Finite (9 / 2)]]
        else None),
      Suc trainer)"

text \<open>
  A trainer whose episode \<open>k\<close> gives every feature asked for the array
  \<open>[[k / 4, 2], [2.5, 4.5]]\<close>: over two episodes the means are binary fractions that
  rounding changes.
\<close>

definition fractional_fetch :: "nat fetch_fn" where
  "fractional_fetch trainer desired_outputs =
     (Inr (\<lambda>feature.
        if feature \<in> set desired_outputs
        then Some [[Finite (of_nat trainer / 4), Finite 2], [Finite (5 / 2), Finite (9 / 2)]]
        else None),
      Suc trainer)"

text \<open>A fetch function that raises on its second call.\<close>

definition failing_fetch :: "nat fetch_fn" where
  "failing_fetch trainer desired_outputs =
     (if trainer = 1 then (Inl (RuntimeError ''rollout failed''), trainer)
      else example_fetch trainer desired_outputs)"

text \<open>
  A fetch function whose arrays for \<^verbatim>\<open>global_temperature\<close> have no rows, so
  that indexing them raises after the first metric has been stored.
\<close>

definition empty_temperature_fetch :: "nat fetch_fn" where
  "empty_temperature_fetch trainer desired_outputs =
     (Inr (\<lambda>feature.
        if feature = ''global_temperature'' then Some []
        else if feature \<in> set desired_outputs then Some [[Finite 1]]
        else None),
      Suc trainer)"

text \<open>
  The trainer of the example backend: the number of episodes rolled out, and whether
  \<^verbatim>\<open>graceful_close\<close> has shut it down.
\<close>

definition example_backend :: "(string, nat \<times> bool) backend" where
  "example_backend =
     \<lparr>create_trainer = (\<lambda>run_config seed. Inr (0, False)),
      load_model_checkpoints = (\<lambda>trainer results_dir. (None, trainer)),
      fetch_episode_states =
        (\<lambda>(episodes, closed) desired_outputs.
           case example_fetch episodes desired_outputs of
             (result, episodes') \<Rightarrow> (result, (episodes', closed))),
      graceful_close = (\<lambda>(episodes, closed). (None, (episodes, True)))\<rparr>"

text \<open>A complete warpdrive submission in the directory \<^verbatim>\<open>results\<close>: every stage succeeds.\<close>

definition example_env :: "(string, nat \<times> bool) env" where
  "example_env =
     \<lparr>listdir = (\<lambda>d. Inr [''.warpdrive'', ''rice.py'', ''rice_helpers.py'', ''rice_cuda.py'',
                          ''rice_step.cu'', ''rice_warpdrive.yaml'']),
      run_unittests = (\<lambda>d. None),
      import_module = (\<lambda>m. Inr example_backend),
      path_exists = (\<lambda>f. True),
      open_file = (\<lambda>f. Inr ''name: rice''),
      yaml_safe_load = (\<lambda>text. Inr text)\<rparr>"

text \<open>The same submission with a trainer whose \<^verbatim>\<open>graceful_close\<close> raises.\<close>

definition close_fails_env :: "(string, nat \<times> bool) env" where
  "close_fails_env =
     example_env
       \<lparr>import_module := (\<lambda>m. Inr (example_backend
           \<lparr>graceful_close := (\<lambda>trainer. (Some (RuntimeError ''close failed''), trainer))\<rparr>))\<rparr>"

text \<open>The same submission as an rllib directory.\<close>

definition rllib_env :: "(string, nat \<times> bool) env" where
  "rllib_env =
     example_env
       \<lparr>listdir := (\<lambda>d. Inr [''.rllib'', ''rice.py'', ''rice_helpers.py'', ''rice_rllib.yaml''])\<rparr>"

text \<open>
  An environment whose training modules give trainers with another
  \<^verbatim>\<open>graceful_close\<close> method, and are the same otherwise.
\<close>

definition replace_graceful_close ::
  "('tr \<Rightarrow> py_exception option \<times> 'tr) \<Rightarrow> ('cfg, 'tr) env \<Rightarrow> ('cfg, 'tr) env" where
  "replace_graceful_close close env =
     env\<lparr>import_module :=
       (\<lambda>m. case import_module env m of
               Inl e \<Rightarrow> Inl e
             | Inr b \<Rightarrow> Inr (b\<lparr>graceful_close := close\<rparr>))\<rparr>"

section \<open>Properties of validate_dir\<close>

lemma check_files_first_missing:
  assumes "\<exists>f \<in> set req. f \<notin> set files"
  shows "\<exists>i < length req. req ! i \<notin> set files \<and> (\<forall>j < i. req ! j \<in> set files) \<and>
           check_files files req st =
             Some (False, req ! i @ '' is not present in the results directory!'')"
  using assms
proof (induction req arbitrary: st)
  case Nil
  then show ?case by simp
next
  case (Cons f1 rest)
  show ?case
  proof (cases "f1 \<in> set files")
    case False
    then have "(f1 # rest) ! 0 \<notin> set files \<and> (\<forall>j < 0. (f1 # rest) ! j \<in> set files) \<and>
        check_files files (f1 # rest) st =
          Some (False, (f1 # rest) ! 0 @ '' is not present in the results directory!'')"
      by simp
    then show ?thesis by blast
  next
    case True
    with Cons.prems have "\<exists>f \<in> set rest. f \<notin> set files" by auto
    from Cons.IH [OF this, of "Some (True, ''Valid submission'')"]
    obtain i where i: "i < length rest" "rest ! i \<notin> set files" "\<forall>j < i. rest ! j \<in> set files"
      "check_files files rest (Some (True, ''Valid submission'')) =
         Some (False, rest ! i @ '' is not present in the results directory!'')"
      by blast
    have "\<forall>j < Suc i. (f1 # rest) ! j \<in> set files"
      using True i(3) by (auto simp: nth_Cons split: nat.splits)
    with i True have "Suc i < length (f1 # rest) \<and> (f1 # rest) ! Suc i \<notin> set files \<and>
        (\<forall>j < Suc i. (f1 # rest) ! j \<in> set files) \<and>
        check_files files (f1 # rest) st =
          Some (False, (f1 # rest) ! Suc i @ '' is not present in the results directory!'')"
      by simp
    then show ?thesis by blast
  qed
qed

lemma check_files_all_present:
  assumes "set req \<subseteq> set files" "req \<noteq> []"
  shows "check_files files req st = Some (True, ''Valid submission'')"
  using assms
proof (induction req arbitrary: st)
  case Nil
  then show ?case by simp
next
  case (Cons f1 rest)
  then show ?case by (cases rest) auto
qed

text \<open>
  Claim C5. A directory holds a marker file and lacks at least one of the files that the
  backend chosen by the marker requires (\<open>warpdrive_files\<close> when \<^verbatim>\<open>.warpdrive\<close>
  is there, \<open>rllib_files\<close> otherwise). Then \<open>validate_dir\<close> returns the backend,
  success false, and a comment that names one file: the first of the required files, in
  the order of the list, that the directory lacks. Files missing later in the list are
  not reported.
\<close>

theorem validate_dir_first_missing_file:
  assumes "listdir env rd = Inr files"
    and "''.warpdrive'' \<in> set files \<or> ''.rllib'' \<in> set files"
    and "fw = (if ''.warpdrive'' \<in> set files then ''warpdrive'' else ''rllib'')"
    and "req = (if ''.warpdrive'' \<in> set files then warpdrive_files else rllib_files)"
    and "\<exists>f \<in> set req. f \<notin> set files"
  shows "\<exists>i < length req. req ! i \<notin> set files \<and> (\<forall>j < i. req ! j \<in> set files) \<and>
           validate_dir env (Some rd) =
             Inr (Some fw, False, req ! i @ '' is not present in the results directory!'')"
proof -
  from check_files_first_missing [OF assms(5), of None]
  obtain i where i: "i < length req" "req ! i \<notin> set files" "\<forall>j < i. req ! j \<in> set files"
    "check_files files req None =
       Some (False, req ! i @ '' is not present in the results directory!'')"
    by blast
  have "validate_dir env (Some rd) =
      Inr (Some fw, False, req ! i @ '' is not present in the results directory!'')"
  proof (cases "''.warpdrive'' \<in> set files")
    case True
    with assms(1,3,4) i(4) show ?thesis by (simp add: validate_dir_def)
  next
    case False
    with assms(1,2,3,4) i(4) show ?thesis by (simp add: validate_dir_def)
  qed
  with i show ?thesis by blast
qed

text \<open>
  A warpdrive directory that lacks \<^verbatim>\<open>rice_cuda.py\<close> and \<^verbatim>\<open>rice_step.cu\<close>:
  the comment names \<^verbatim>\<open>rice_cuda.py\<close> only.
\<close>

theorem validate_dir_first_missing_file_witness:
  "validate_dir
     (example_env\<lparr>listdir :=
        (\<lambda>d. Inr [''.warpdrive'', ''rice.py'', ''rice_helpers.py'', ''rice_warpdrive.yaml''])\<rparr>)
     (Some ''results'') =
   Inr (Some ''warpdrive'', False, ''rice_cuda.py is not present in the results directory!'')
   \<and> ''rice_step.cu'' \<notin> set [''.warpdrive'', ''rice.py'', ''rice_helpers.py'', ''rice_warpdrive.yaml'']"
proof -
  let ?files = "[''.warpdrive'', ''rice.py'', ''rice_helpers.py'', ''rice_warpdrive.yaml'']"
  let ?env = "example_env\<lparr>listdir := (\<lambda>d. Inr ?files)\<rparr>"
  have h1: "listdir ?env ''results'' = Inr ?files" by simp
  have h2: "''.warpdrive'' \<in> set ?files \<or> ''.rllib'' \<in> set ?files" by simp
  have h3: "''warpdrive'' = (if ''.warpdrive'' \<in> set ?files then ''warpdrive'' else ''rllib'')"
    by simp
  have h4: "warpdrive_files = (if ''.warpdrive'' \<in> set ?files then warpdrive_files else rllib_files)"
    by simp
  have h5: "\<exists>f \<in> set warpdrive_files. f \<notin> set ?files" by (simp add: warpdrive_files_def)
  from validate_dir_first_missing_file [OF h1 h2 h3 h4 h5]
  obtain i where i: "i < length warpdrive_files" "warpdrive_files ! i \<notin> set ?files"
    "\<forall>j < i. warpdrive_files ! j \<in> set ?files"
    "validate_dir ?env (Some ''results'') =
       Inr (Some ''warpdrive'', False,
            warpdrive_files ! i @ '' is not present in the results directory!'')"
    by blast
  have "i = 2"
  proof (rule ccontr)
    assume "i \<noteq> 2"
    then consider "i < 2" | "2 < i" by linarith
    then show False
    proof cases
      case 1
      then have "i = 0 \<or> i = 1" by auto
      with i(2) show False by (auto simp: warpdrive_files_def)
    next
      case 2
      with i(3) have "warpdrive_files ! 2 \<in> set ?files" by blast
      then show False by (simp add: warpdrive_files_def)
    qed
  qed
  with i(4) show ?thesis by (simp add: warpdrive_files_def)
qed

text \<open>
  Claim C6. When the directory listing holds neither \<^verbatim>\<open>.warpdrive\<close> nor
  \<^verbatim>\<open>.rllib\<close>, whatever else it holds, \<open>validate_dir\<close> returns no framework,
  success false and the comment \<^verbatim>\<open>Missing identifier file!\<close>.
\<close>

theorem validate_dir_missing_marker:
  assumes "listdir env rd = Inr files"
    and "''.warpdrive'' \<notin> set files" and "''.rllib'' \<notin> set files"
  shows "validate_dir env (Some rd) = Inr (None, False, ''Missing identifier file!'')"
  using assms by (simp add: validate_dir_def)

text \<open>A directory with all the files of an rllib submission but the marker.\<close>

theorem validate_dir_missing_marker_witness:
  "validate_dir
     (example_env\<lparr>listdir := (\<lambda>d. Inr [''rice.py'', ''rice_helpers.py'', ''rice_rllib.yaml''])\<rparr>)
     (Some ''results'') = Inr (None, False, ''Missing identifier file!'')"
  using validate_dir_missing_marker
    [of "example_env\<lparr>listdir := (\<lambda>d. Inr [''rice.py'', ''rice_helpers.py'', ''rice_rllib.yaml''])\<rparr>"
        "''results''" "[''rice.py'', ''rice_helpers.py'', ''rice_rllib.yaml'']"]
  by simp

text \<open>
  Claim C10. When the directory holds both markers, \<open>validate_dir\<close> chooses warpdrive
  and checks the files of warpdrive: with all five there the submission is valid, and
  otherwise the failure names a file of warpdrive that is missing. The second marker
  is never a failure of its own.
\<close>

theorem validate_dir_both_markers:
  assumes "listdir env rd = Inr files"
    and "''.warpdrive'' \<in> set files" and "''.rllib'' \<in> set files"
  shows "(set warpdrive_files \<subseteq> set files \<longrightarrow>
            validate_dir env (Some rd) = Inr (Some ''warpdrive'', True, ''Valid submission''))
       \<and> (\<not> set warpdrive_files \<subseteq> set files \<longrightarrow>
            (\<exists>f \<in> set warpdrive_files. f \<notin> set files \<and>
               validate_dir env (Some rd) =
                 Inr (Some ''warpdrive'', False,
                      f @ '' is not present in the results directory!'')))"
proof (intro conjI impI)
  assume "set warpdrive_files \<subseteq> set files"
  moreover have "warpdrive_files \<noteq> []" by (simp add: warpdrive_files_def)
  ultimately have "check_files files warpdrive_files None = Some (True, ''Valid submission'')"
    by (rule check_files_all_present)
  with assms(1,2)
  show "validate_dir env (Some rd) = Inr (Some ''warpdrive'', True, ''Valid submission'')"
    by (simp add: validate_dir_def)
next
  assume "\<not> set warpdrive_files \<subseteq> set files"
  then have "\<exists>f \<in> set warpdrive_files. f \<notin> set files" by blast
  from check_files_first_missing [OF this, of None]
  obtain i where i: "i < length warpdrive_files" "warpdrive_files ! i \<notin> set files"
    "check_files files warpdrive_files None =
       Some (False, warpdrive_files ! i @ '' is not present in the results directory!'')"
    by blast
  from i(1) have "warpdrive_files ! i \<in> set warpdrive_files" by simp
  moreover from assms(1,2) i(3) have "validate_dir env (Some rd) =
      Inr (Some ''warpdrive'', False,
           warpdrive_files ! i @ '' is not present in the results directory!'')"
    by (simp add: validate_dir_def)
  ultimately show "\<exists>f \<in> set warpdrive_files. f \<notin> set files \<and>
      validate_dir env (Some rd) =
        Inr (Some ''warpdrive'', False, f @ '' is not present in the results directory!'')"
    using i(2) by blast
qed

text \<open>Both markers and the five files of warpdrive; the files of rllib are not all there.\<close>

theorem validate_dir_both_markers_witness:
  "validate_dir
     (example_env\<lparr>listdir :=
        (\<lambda>d. Inr [''.rllib'', ''.warpdrive'', ''rice.py'', ''rice_helpers.py'',
                   ''rice_cuda.py'', ''rice_step.cu'', ''rice_warpdrive.yaml''])\<rparr>)
     (Some ''results'') = Inr (Some ''warpdrive'', True, ''Valid submission'')"
proof -
  let ?files = "[''.rllib'', ''.warpdrive'', ''rice.py'', ''rice_helpers.py'',
        ''rice_cuda.py'', ''rice_step.cu'', ''rice_warpdrive.yaml'']"
  let ?env = "example_env\<lparr>listdir := (\<lambda>d. Inr ?files)\<rparr>"
  have h1: "listdir ?env ''results'' = Inr ?files" by simp
  have h2: "''.warpdrive'' \<in> set ?files" by simp
  have h3: "''.rllib'' \<in> set ?files" by simp
  have h4: "set warpdrive_files \<subseteq> set ?files" by (simp add: warpdrive_files_def)
  from validate_dir_both_markers [OF h1 h2 h3] h4 show ?thesis by blast
qed

section \<open>Properties of perform_format\<close>

lemma round_half_even_py_round: "round_half_even q = py_round q"
proof -
  define f where "f = \<lfloor>q\<rfloor>"
  define r where "r = q - of_int f"
  define n where "n = \<lfloor>q + 1 / 2\<rfloor>"
  have r: "0 \<le> r" "r < 1" unfolding r_def f_def by linarith+
  have q: "q = of_int f + r" by (simp add: r_def)
  have rhe: "round_half_even q =
      (if r < 1 / 2 then f else if 1 / 2 < r then f + 1 else if even f then f else f + 1)"
    unfolding round_half_even_def Let_def f_def r_def ..
  have pyr: "py_round q = (if of_int n = q + 1 / 2 \<and> odd n then n - 1 else n)"
    unfolding py_round_def Let_def n_def ..
  consider "r < 1 / 2" | "1 / 2 < r" | "r = 1 / 2" by linarith
  then show ?thesis
  proof cases
    case 1
    have "n = f" unfolding n_def q using 1 r by (intro floor_unique) auto
    moreover have "of_int f \<noteq> q + 1 / 2" unfolding q using r by simp
    ultimately have "py_round q = f" using pyr by simp
    with rhe 1 show ?thesis by simp
  next
    case 2
    have "n = f + 1" unfolding n_def q using 2 r by (intro floor_unique) auto
    moreover have "of_int (f + 1) \<noteq> q + 1 / 2" unfolding q using 2 by simp
    ultimately have "py_round q = f + 1" using pyr by simp
    with rhe 2 show ?thesis by simp
  next
    case 3
    have "n = f + 1" unfolding n_def q using 3 by (intro floor_unique) auto
    moreover have "of_int (f + 1) = q + 1 / 2" unfolding q using 3 by simp
    ultimately have "py_round q = (if even f then f else f + 1)" using pyr by simp
    with rhe 3 show ?thesis by simp
  qed
qed

text \<open>
  Claim C7, as the script has it. With zero places, \<open>perform_format\<close> returns the Python
  integer \<^verbatim>\<open>round(v)\<close> for every finite \<open>v\<close>, and raises for the three values
  that are not finite (\<^verbatim>\<open>int\<close> of NaN is a ValueError, of an infinity an
  OverflowError). With \<open>k > 0\<close> places it returns what numpy's rounding to \<open>k\<close> places
  gives, as a double and never as an integer, for every \<open>v\<close>.
\<close>

theorem perform_format_rounding:
  "perform_format np (Finite q) 0 = Inr (PyInt (py_round q))
   \<and> perform_format np NaN 0 = Inl (ValueError ''cannot convert float NaN to integer'')
   \<and> perform_format np PosInf 0 = Inl OverflowError
   \<and> perform_format np NegInf 0 = Inl OverflowError
   \<and> (0 < k \<longrightarrow> perform_format np v k = Inr (NpFloat (np_round np v (nat k))))"
  by (simp add: perform_format_def np_round_def round_half_even_py_round)

text \<open>Ties go to the even integer; 2.517 to two places is 2.52.\<close>

theorem perform_format_rounding_witness:
  "perform_format exact_numpy (Finite (5 / 2)) 0 = Inr (PyInt 2)
   \<and> perform_format exact_numpy (Finite (7 / 2)) 0 = Inr (PyInt 4)
   \<and> perform_format exact_numpy (Finite (2517 / 1000)) 2 = Inr (NpFloat (Finite (63 / 25)))"
proof -
  have "py_round (5 / 2) = 2" "py_round (7 / 2) = 4" by code_simp+
  moreover have "np_round exact_numpy (Finite (2517 / 1000)) (nat 2) = Finite (63 / 25)"
    by code_simp
  ultimately show ?thesis
    using perform_format_rounding [of exact_numpy "5 / 2" 2 "Finite (2517 / 1000)"]
      perform_format_rounding [of exact_numpy "7 / 2" 2 "Finite (2517 / 1000)"]
    by simp
qed

text \<open>
  The claim as it is written, for every value \<open>v\<close>, fails at NaN: the call
  \<^verbatim>\<open>perform_format(nan, 0)\<close> raises and returns no integer.
\<close>

theorem perform_format_nan_counterexample:
  "perform_format exact_numpy NaN 0 = Inl (ValueError ''cannot convert float NaN to integer'')"
  by (simp add: perform_format_def np_round_def)

section \<open>Properties of compute_metrics\<close>

lemma collect_Inr: "collect g xs = Inr ys \<Longrightarrow> map g xs = map Inr ys"
  by (induction xs arbitrary: ys) (auto split: sum.splits)

lemma collect_arrays:
  assumes "collect g sts = Inr vals"
    and "\<And>st v. g st = Inr v \<Longrightarrow> \<exists>a. st feature = Some a \<and> h a = Inr v"
  shows "\<exists>arrays. map (\<lambda>st. st feature) sts = map Some arrays \<and> map h arrays = map Inr vals"
  using assms(1)
proof (induction sts arbitrary: vals)
  case Nil
  then show ?case by simp
next
  case (Cons st sts)
  from Cons.prems obtain v vs where v: "g st = Inr v" and vs: "collect g sts = Inr vs"
    and vals: "vals = v # vs"
    by (auto split: sum.splits)
  from assms(2) [OF v] obtain a where a: "st feature = Some a" "h a = Inr v" by blast
  from Cons.IH [OF vs] obtain arrays where
    "map (\<lambda>st. st feature) sts = map Some arrays" "map h arrays = map Inr vs" by blast
  with a vals have "map (\<lambda>st. st feature) (st # sts) = map Some (a # arrays)
      \<and> map h (a # arrays) = map Inr vals" by simp
  then show ?case by blast
qed

lemma feature_values_of_scalars:
  assumes "feature_values_of np feature sts = Inr vals"
  shows "\<exists>arrays. map (\<lambda>st. st feature) sts = map Some arrays
           \<and> map (episode_scalar np feature) arrays = map Inr vals"
proof -
  consider (temp) "feature = ''global_temperature''"
    | (carbon) "feature \<noteq> ''global_temperature''" "feature = ''global_carbon_mass''"
    | (other) "feature \<noteq> ''global_temperature''" "feature \<noteq> ''global_carbon_mass''"
    by blast
  then show ?thesis
  proof cases
    case temp
    let ?g = "\<lambda>st. case getitem st feature of
            Inl e \<Rightarrow> Inl e
          | Inr a \<Rightarrow>
              (case index2 a (- 1) 0 of
                 Inl e \<Rightarrow> Inl e
               | Inr final \<Rightarrow>
                   (case index2 a 0 0 of
                      Inl e \<Rightarrow> Inl e
                    | Inr initial \<Rightarrow> Inr (np_subtract np final initial)))"
    from assms temp have c: "collect ?g sts = Inr vals"
      by (simp add: feature_values_of_def)
    have "\<exists>a. st feature = Some a \<and> episode_scalar np feature a = Inr v"
      if "?g st = Inr v" for st v
    proof -
      from that obtain a final initial where "st feature = Some a"
        "index2 a (- 1) 0 = Inr final" "index2 a 0 0 = Inr initial"
        "v = np_subtract np final initial"
        by (auto simp: getitem_def split: sum.splits option.splits)
      with temp show ?thesis by (simp add: episode_scalar_def)
    qed
    with c show ?thesis by (rule collect_arrays)
  next
    case carbon
    let ?g = "\<lambda>st. case getitem st feature of
            Inl e \<Rightarrow> Inl e
          | Inr a \<Rightarrow> index2 a (- 1) 0"
    from assms carbon have c: "collect ?g sts = Inr vals"
      by (simp add: feature_values_of_def)
    have "\<exists>a. st feature = Some a \<and> episode_scalar np feature a = Inr v"
      if "?g st = Inr v" for st v
    proof -
      from that obtain a where "st feature = Some a" "index2 a (- 1) 0 = Inr v"
        by (auto simp: getitem_def split: sum.splits option.splits)
      with carbon show ?thesis by (simp add: episode_scalar_def)
    qed
    with c show ?thesis by (rule collect_arrays)
  next
    case other
    let ?g = "\<lambda>st. case getitem st feature of
            Inl e \<Rightarrow> Inl e
          | Inr a \<Rightarrow> Inr (np_sum np a)"
    from assms other have c: "collect ?g sts = Inr vals"
      by (simp add: feature_values_of_def)
    have "\<exists>a. st feature = Some a \<and> episode_scalar np feature a = Inr v"
      if "?g st = Inr v" for st v
    proof -
      from that obtain a where "st feature = Some a" "v = np_sum np a"
        by (auto simp: getitem_def split: sum.splits option.splits)
      with other show ?thesis by (simp add: episode_scalar_def)
    qed
    with c show ?thesis by (rule collect_arrays)
  qed
qed

lemma fetch_loop_length:
  "fetch_loop fetch outs k tr acc = (Inr sts, tr') \<Longrightarrow> length sts = length acc + k"
  by (induction k arbitrary: tr acc) (auto split: prod.splits sum.splits)

lemma features_loop_keeps:
  assumes "features_loop np sts fs m0 = (None, m)"
    and "m0 l = Some v"
    and "\<forall>g \<in> set fs. \<forall>l' p'. map_of METRICS_TO_LABEL_DICT g = Some (l', p') \<longrightarrow> l' \<noteq> l"
  shows "m l = Some v"
  using assms
proof (induction fs arbitrary: m0)
  case Nil
  then show ?case by simp
next
  case (Cons g fs)
  from Cons.prems(1) obtain vals l' p' v' where
    g: "map_of METRICS_TO_LABEL_DICT g = Some (l', p')"
    and rest: "features_loop np sts fs (m0(l' \<mapsto> v')) = (None, m)"
    by (auto simp: getitem_def Let_def split: sum.splits option.splits prod.splits)
  from g Cons.prems(3) have "l' \<noteq> l" by auto
  with Cons.prems(2) have "(m0(l' \<mapsto> v')) l = Some v" by simp
  from Cons.IH [OF rest this] Cons.prems(3) show ?case by simp
qed

lemma features_loop_stores:
  assumes "features_loop np sts fs m0 = (None, m)"
    and "f \<in> set fs"
    and "map_of METRICS_TO_LABEL_DICT f = Some (l, p)"
    and "\<forall>g \<in> set fs. g \<noteq> f \<longrightarrow>
           (\<forall>l' p'. map_of METRICS_TO_LABEL_DICT g = Some (l', p') \<longrightarrow> l' \<noteq> l)"
  shows "\<exists>vals v. feature_values_of np f sts = Inr vals
           \<and> perform_format np (np_mean np vals) p = Inr v \<and> m l = Some v"
  using assms
proof (induction fs arbitrary: m0)
  case Nil
  then show ?case by simp
next
  case (Cons g fs)
  from Cons.prems(1) obtain vals l' p' v' where
    vals: "feature_values_of np g sts = Inr vals"
    and g: "map_of METRICS_TO_LABEL_DICT g = Some (l', p')"
    and v': "perform_format np (np_mean np vals) p' = Inr v'"
    and rest: "features_loop np sts fs (m0(l' \<mapsto> v')) = (None, m)"
    by (auto simp: getitem_def Let_def split: sum.splits option.splits prod.splits)
  show ?case
  proof (cases "f \<in> set fs")
    case True
    from Cons.IH [OF rest True Cons.prems(3)] Cons.prems(4) show ?thesis by simp
  next
    case False
    with Cons.prems(2) have fg: "f = g" by simp
    with g Cons.prems(3) have lp: "l' = l" "p' = p" by simp_all
    have "\<forall>h \<in> set fs. \<forall>l' p'. map_of METRICS_TO_LABEL_DICT h = Some (l', p') \<longrightarrow> l' \<noteq> l"
      using Cons.prems(4) False by auto
    from features_loop_keeps [OF rest _ this, of v'] lp have "m l = Some v'" by simp
    with vals v' fg lp show ?thesis by simp
  qed
qed

lemma features_loop_dom:
  assumes "features_loop np sts fs m0 = (None, m)"
    and "set fs \<subseteq> set (map fst METRICS_TO_LABEL_DICT)"
  shows "dom m = dom m0 \<union> {l. \<exists>f \<in> set fs. \<exists>p. map_of METRICS_TO_LABEL_DICT f = Some (l, p)}"
  using assms
proof (induction fs arbitrary: m0)
  case Nil
  then show ?case by simp
next
  case (Cons g fs)
  from Cons.prems(1) obtain l' p' v' where
    g: "map_of METRICS_TO_LABEL_DICT g = Some (l', p')"
    and rest: "features_loop np sts fs (m0(l' \<mapsto> v')) = (None, m)"
    by (auto simp: getitem_def Let_def split: sum.splits option.splits prod.splits)
  from Cons.prems(2) have "set fs \<subseteq> set (map fst METRICS_TO_LABEL_DICT)" by simp
  from Cons.IH [OF rest this] g show ?case by (auto split: if_splits)
qed

lemma metrics_keys_distinct: "distinct (map fst METRICS_TO_LABEL_DICT)"
  by (simp add: METRICS_TO_LABEL_DICT_def)

lemma metrics_labels_distinct: "distinct (map (fst \<circ> snd) METRICS_TO_LABEL_DICT)"
  by (simp add: METRICS_TO_LABEL_DICT_def)

lemma metrics_lookup:
  "map_of METRICS_TO_LABEL_DICT f = Some (l, p) \<longleftrightarrow> (f, l, p) \<in> set METRICS_TO_LABEL_DICT"
  using metrics_keys_distinct by simp

lemma metrics_label_unique:
  assumes "(f, l, p) \<in> set METRICS_TO_LABEL_DICT" "(g, l, p') \<in> set METRICS_TO_LABEL_DICT"
  shows "f = g"
proof -
  from metrics_labels_distinct have "inj_on (fst \<circ> snd) (set METRICS_TO_LABEL_DICT)"
    by (simp add: distinct_map)
  from inj_onD [OF this _ assms] show ?thesis by simp
qed

lemma metrics_labels_dom:
  "{l. \<exists>f \<in> set (map fst METRICS_TO_LABEL_DICT). \<exists>p. map_of METRICS_TO_LABEL_DICT f = Some (l, p)}
     = set (map (fst \<circ> snd) METRICS_TO_LABEL_DICT)"
  by (force simp: metrics_lookup)

lemma features_loop_raises:
  assumes "f \<in> set fs"
    and "feature_values_of np f sts = Inl e
         \<or> (\<exists>vals l p. feature_values_of np f sts = Inr vals
               \<and> map_of METRICS_TO_LABEL_DICT f = Some (l, p)
               \<and> perform_format np (np_mean np vals) p = Inl e)"
  shows "\<exists>e' m'. features_loop np sts fs m0 = (Some e', m')"
  using assms(1)
proof (induction fs arbitrary: m0)
  case Nil
  then show ?case by simp
next
  case (Cons g fs)
  show ?case
  proof (cases "f = g")
    case True
    with assms(2) show ?thesis
      by (auto simp: getitem_def Let_def split: sum.splits option.splits)
  next
    case False
    with Cons.prems have "f \<in> set fs" by simp
    from Cons.IH [OF this] show ?thesis
      by (auto simp: getitem_def Let_def split: sum.splits option.splits prod.splits)
  qed
qed

text \<open>
  Claim C1. Let the framework tag be one of the two valid ones, and let the fetch function
  and the trainer be any. If an exception leaves the \<^verbatim>\<open>try\<close> block of
  \<open>compute_metrics\<close>, whatever metrics were stored by then, then \<open>compute_metrics\<close>
  returns success false, the comment \<^verbatim>\<open>Could not obtain an episode rollout!\<close> and the
  empty mapping. This is so when the fetch function raises on some episode, and when, for
  some feature of the registry, the computation of the per-episode values or the formatting
  of their mean raises. And \<open>compute_metrics\<close> always returns: either with success and
  a metric for each of the eight labels, or without success and with the empty mapping,
  never with some of the metrics.
\<close>

theorem compute_metrics_no_partial_metrics:
  assumes "framework \<in> set available_frameworks"
  shows "(\<forall>e partial tr'. compute_metrics_try np fetch tr n = ((Some e, partial), tr') \<longrightarrow>
            compute_metrics np (Some fetch) (Some tr) framework n =
              Inr ((False, ''Could not obtain an episode rollout!'', Map.empty), tr'))
       \<and> (\<forall>e tr'. fetch_loop fetch (map fst METRICS_TO_LABEL_DICT) (nat n) tr [] = (Inl e, tr') \<longrightarrow>
            compute_metrics np (Some fetch) (Some tr) framework n =
              Inr ((False, ''Could not obtain an episode rollout!'', Map.empty), tr'))
       \<and> (\<forall>sts tr' f e.
            fetch_loop fetch (map fst METRICS_TO_LABEL_DICT) (nat n) tr [] = (Inr sts, tr')
            \<and> f \<in> set (map fst METRICS_TO_LABEL_DICT)
            \<and> (feature_values_of np f sts = Inl e
               \<or> (\<exists>vals l p. feature_values_of np f sts = Inr vals
                     \<and> map_of METRICS_TO_LABEL_DICT f = Some (l, p)
                     \<and> perform_format np (np_mean np vals) p = Inl e)) \<longrightarrow>
            compute_metrics np (Some fetch) (Some tr) framework n =
              Inr ((False, ''Could not obtain an episode rollout!'', Map.empty), tr'))
       \<and> (\<exists>success comment m tr'.
            compute_metrics np (Some fetch) (Some tr) framework n = Inr ((success, comment, m), tr') \<and>
            (if success then dom m = set (map (fst \<circ> snd) METRICS_TO_LABEL_DICT)
             else comment = ''Could not obtain an episode rollout!'' \<and> m = Map.empty))"
proof (intro conjI allI impI)
  fix e partial tr'
  assume "compute_metrics_try np fetch tr n = ((Some e, partial), tr')"
  with assms show "compute_metrics np (Some fetch) (Some tr) framework n =
      Inr ((False, ''Could not obtain an episode rollout!'', Map.empty), tr')"
    by (simp add: compute_metrics_def)
next
  fix e tr'
  assume "fetch_loop fetch (map fst METRICS_TO_LABEL_DICT) (nat n) tr [] = (Inl e, tr')"
  then have "compute_metrics_try np fetch tr n = ((Some e, Map.empty), tr')"
    by (simp add: compute_metrics_try_def)
  with assms show "compute_metrics np (Some fetch) (Some tr) framework n =
      Inr ((False, ''Could not obtain an episode rollout!'', Map.empty), tr')"
    by (simp add: compute_metrics_def)
next
  fix sts tr' f e
  assume a: "fetch_loop fetch (map fst METRICS_TO_LABEL_DICT) (nat n) tr [] = (Inr sts, tr')
      \<and> f \<in> set (map fst METRICS_TO_LABEL_DICT)
      \<and> (feature_values_of np f sts = Inl e
         \<or> (\<exists>vals l p. feature_values_of np f sts = Inr vals
               \<and> map_of METRICS_TO_LABEL_DICT f = Some (l, p)
               \<and> perform_format np (np_mean np vals) p = Inl e))"
  then obtain e' m' where
    "features_loop np sts (map fst METRICS_TO_LABEL_DICT) Map.empty = (Some e', m')"
    using features_loop_raises [of f "map fst METRICS_TO_LABEL_DICT" np sts e Map.empty]
    by blast
  with a have "compute_metrics_try np fetch tr n = ((Some e', m'), tr')"
    by (simp add: compute_metrics_try_def)
  with assms show "compute_metrics np (Some fetch) (Some tr) framework n =
      Inr ((False, ''Could not obtain an episode rollout!'', Map.empty), tr')"
    by (simp add: compute_metrics_def)
next
  obtain r m tr' where t: "compute_metrics_try np fetch tr n = ((r, m), tr')"
    by (metis surj_pair)
  show "\<exists>success comment m tr'.
      compute_metrics np (Some fetch) (Some tr) framework n = Inr ((success, comment, m), tr') \<and>
      (if success then dom m = set (map (fst \<circ> snd) METRICS_TO_LABEL_DICT)
       else comment = ''Could not obtain an episode rollout!'' \<and> m = Map.empty)"
  proof (cases r)
    case (Some e)
    with t assms have "compute_metrics np (Some fetch) (Some tr) framework n =
        Inr ((False, ''Could not obtain an episode rollout!'', Map.empty), tr')"
      by (simp add: compute_metrics_def)
    then show ?thesis by (intro exI [of _ False] exI [of _ "''Could not obtain an episode rollout!''"]
          exI [of _ Map.empty] exI [of _ tr']) simp
  next
    case None
    with t obtain sts where
      "features_loop np sts (map fst METRICS_TO_LABEL_DICT) Map.empty = (None, m)"
      by (auto simp: compute_metrics_try_def Let_def split: prod.splits sum.splits)
    from features_loop_dom [OF this] have "dom m = set (map (fst \<circ> snd) METRICS_TO_LABEL_DICT)"
      by (simp only: metrics_labels_dom dom_empty Un_empty_left subset_refl)
    moreover from None t assms have "compute_metrics np (Some fetch) (Some tr) framework n =
        Inr ((True, ''Successful submission'', m), tr')"
      by (simp add: compute_metrics_def)
    ultimately show ?thesis by (intro exI [of _ True] exI [of _ "''Successful submission''"]
          exI [of _ m] exI [of _ tr']) simp
  qed
qed

text \<open>
  A fetch function whose temperature arrays have no rows: the exception comes when the
  first metric is stored already, and the result is empty all the same. And a fetch
  function that raises on the second of two episodes.
\<close>

theorem compute_metrics_no_partial_metrics_witness:
  "fst (fst (compute_metrics_try exact_numpy empty_temperature_fetch 0 2)) = Some IndexError
   \<and> snd (fst (compute_metrics_try exact_numpy empty_temperature_fetch 0 2)) ''Total Episode Reward''
       = Some (NpFloat (Finite 1))
   \<and> compute_metrics exact_numpy (Some empty_temperature_fetch) (Some 0) (Some ''warpdrive'') 2 =
       Inr ((False, ''Could not obtain an episode rollout!'', Map.empty), 2)
   \<and> compute_metrics exact_numpy (Some failing_fetch) (Some 0) (Some ''warpdrive'') 2 =
       Inr ((False, ''Could not obtain an episode rollout!'', Map.empty), 1)"
proof -
  have fw: "Some ''warpdrive'' \<in> set available_frameworks"
    by (simp add: available_frameworks_def)
  have e: "fst (fst (compute_metrics_try exact_numpy empty_temperature_fetch 0 2)) = Some IndexError"
    "snd (fst (compute_metrics_try exact_numpy empty_temperature_fetch 0 2)) ''Total Episode Reward''
       = Some (NpFloat (Finite 1))"
    "snd (compute_metrics_try exact_numpy empty_temperature_fetch 0 2) = 2"
    by code_simp+
  then have t: "compute_metrics_try exact_numpy empty_temperature_fetch 0 2 =
      ((Some IndexError, snd (fst (compute_metrics_try exact_numpy empty_temperature_fetch 0 2))), 2)"
    by (metis prod.collapse)
  have "case fetch_loop failing_fetch (map fst METRICS_TO_LABEL_DICT) (nat 2) 0 [] of
      (Inl e, tr') \<Rightarrow> e = RuntimeError ''rollout failed'' \<and> tr' = 1
    | (Inr sts, tr') \<Rightarrow> False"
    by code_simp
  then have f: "fetch_loop failing_fetch (map fst METRICS_TO_LABEL_DICT) (nat 2) 0 [] =
      (Inl (RuntimeError ''rollout failed''), 1)"
    by (auto split: prod.splits sum.splits)
  have r1: "compute_metrics exact_numpy (Some empty_temperature_fetch) (Some 0) (Some ''warpdrive'') 2 =
      Inr ((False, ''Could not obtain an episode rollout!'', Map.empty), 2)"
    using compute_metrics_no_partial_metrics [OF fw, THEN conjunct1, rule_format, OF t] .
  have r2: "compute_metrics exact_numpy (Some failing_fetch) (Some 0) (Some ''warpdrive'') 2 =
      Inr ((False, ''Could not obtain an episode rollout!'', Map.empty), 1)"
    using compute_metrics_no_partial_metrics
      [OF fw, THEN conjunct2, THEN conjunct1, rule_format, OF f] .
  from e r1 r2 show ?thesis by simp
qed

lemma perform_format_Inr:
  assumes "perform_format np val places = Inr v"
  shows "0 \<le> places \<and>
         (if places = 0 then \<exists>q. val = Finite q \<and> v = PyInt (py_round q)
          else v = NpFloat (np_round np val (nat places)))"
proof (cases "places = 0")
  case True
  with assms show ?thesis
    by (cases val)
      (auto simp: perform_format_def np_round_def round_half_even_py_round split: sum.splits)
next
  case False
  with assms show ?thesis
    by (auto simp: perform_format_def Let_def split: if_splits)
qed

text \<open>
  Claim C3. When \<open>compute_metrics\<close> succeeds, then for every feature of the registry,
  with its label and its number of places: the episodes fetched are as many as asked for,
  each has an array for the feature, and the scalar of an episode is \<open>episode_scalar\<close> of
  its array (last minus first value of column 0 for \<^verbatim>\<open>global_temperature\<close>,
  last value of column 0 for \<^verbatim>\<open>global_carbon_mass\<close>, the sum of the array for
  every other feature). The metric stored under the label is the mean of these scalars,
  in the order of the episodes, rounded to the places of the feature: with zero places
  the mean is finite and the metric is the Python integer \<^verbatim>\<open>round(mean)\<close>, with
  more places it is the double that numpy's rounding of the mean to that many places gives.
\<close>

theorem compute_metrics_feature_rule:
  assumes "compute_metrics np (Some fetch) (Some tr) framework n = Inr ((True, comment, m), tr')"
    and "(feature, label, places) \<in> set METRICS_TO_LABEL_DICT"
  shows "\<exists>episode_states arrays scalars.
           fetch_loop fetch (map fst METRICS_TO_LABEL_DICT) (nat n) tr [] = (Inr episode_states, tr')
         \<and> length episode_states = nat n
         \<and> map (\<lambda>st. st feature) episode_states = map Some arrays
         \<and> map (episode_scalar np feature) arrays = map Inr scalars
         \<and> 0 \<le> places
         \<and> (if places = 0
            then \<exists>q. np_mean np scalars = Finite q \<and> m label = Some (PyInt (py_round q))
            else m label = Some (NpFloat (np_round np (np_mean np scalars) (nat places))))"
proof -
  from assms(1) obtain sts where
    fetch: "fetch_loop fetch (map fst METRICS_TO_LABEL_DICT) (nat n) tr [] = (Inr sts, tr')"
    and loop: "features_loop np sts (map fst METRICS_TO_LABEL_DICT) Map.empty = (None, m)"
    by (auto simp: compute_metrics_def compute_metrics_try_def Let_def
        split: if_splits prod.splits sum.splits option.splits)
  from fetch_loop_length [OF fetch] have len: "length sts = nat n" by simp
  from assms(2) have f: "feature \<in> set (map fst METRICS_TO_LABEL_DICT)" by force
  from assms(2) have look: "map_of METRICS_TO_LABEL_DICT feature = Some (label, places)"
    by (simp add: metrics_lookup)
  have other: "\<forall>g \<in> set (map fst METRICS_TO_LABEL_DICT). g \<noteq> feature \<longrightarrow>
      (\<forall>l' p'. map_of METRICS_TO_LABEL_DICT g = Some (l', p') \<longrightarrow> l' \<noteq> label)"
    using metrics_label_unique [OF assms(2)] by (auto simp: metrics_lookup)
  from features_loop_stores [OF loop f look other] obtain vals v where
    vals: "feature_values_of np feature sts = Inr vals"
    and v: "perform_format np (np_mean np vals) places = Inr v" "m label = Some v"
    by blast
  from feature_values_of_scalars [OF vals] obtain arrays where
    arrays: "map (\<lambda>st. st feature) sts = map Some arrays"
    "map (episode_scalar np feature) arrays = map Inr vals"
    by blast
  from perform_format_Inr [OF v(1)] v(2) have
    "0 \<le> places \<and>
     (if places = 0
      then \<exists>q. np_mean np vals = Finite q \<and> m label = Some (PyInt (py_round q))
      else m label = Some (NpFloat (np_round np (np_mean np vals) (nat places))))"
    by (auto split: if_splits)
  with fetch len arrays show ?thesis by blast
qed

text \<open>
  Two episodes with the arrays \<open>[[0, 2], [2.5, 4.5]]\<close> and \<open>[[0.25, 2], [2.5, 4.5]]\<close>.
  The temperature rises 2.5 and 2.25 have the mean 2.375, reported as 2.38; the carbon
  masses have the mean 2.5, reported as the integer 2; the sums 9 and 9.25 have the mean
  9.125, reported as the integer 9.
\<close>

theorem compute_metrics_feature_rule_witness:
  "\<exists>m. compute_metrics exact_numpy (Some fractional_fetch) (Some 0) (Some ''rllib'') 2 =
         Inr ((True, ''Successful submission'', m), 2)
     \<and> m ''Global Temperature Rise'' = Some (NpFloat (Finite (119 / 50)))
     \<and> m ''Global Carbon Mass'' = Some (PyInt 2)
     \<and> m ''Total Capital'' = Some (PyInt 9)"
proof -
  let ?A = "[[[Finite 0, Finite 2], [Finite (5 / 2), Finite (9 / 2)]],
          [[Finite (1 / 4), Finite 2], [Finite (5 / 2), Finite (9 / 2)]]]"
  let ?fetched = "fetch_loop fractional_fetch (map fst METRICS_TO_LABEL_DICT) (nat 2) 0 []"
  have run: "case compute_metrics exact_numpy (Some fractional_fetch) (Some 0) (Some ''rllib'') 2 of
      Inl e \<Rightarrow> False
    | Inr ((s, c, m), tr') \<Rightarrow> s \<and> c = ''Successful submission'' \<and> tr' = 2"
    by code_simp
  then obtain m where
    m: "compute_metrics exact_numpy (Some fractional_fetch) (Some 0) (Some ''rllib'') 2 =
         Inr ((True, ''Successful submission'', m), 2)"
    by (auto split: sum.splits prod.splits)
  have fetched: "case ?fetched of
      (Inl e, tr') \<Rightarrow> False
    | (Inr sts, tr') \<Rightarrow>
        map (\<lambda>st. st ''global_temperature'') sts = map Some ?A
        \<and> map (\<lambda>st. st ''global_carbon_mass'') sts = map Some ?A
        \<and> map (\<lambda>st. st ''capital_all_regions'') sts = map Some ?A"
    by code_simp

  have temperature: "m ''Global Temperature Rise'' = Some (NpFloat (Finite (119 / 50)))"
  proof -
    have row: "(''global_temperature'', ''Global Temperature Rise'', 2) \<in> set METRICS_TO_LABEL_DICT"
      by (simp add: METRICS_TO_LABEL_DICT_def)
    from compute_metrics_feature_rule [OF m row] obtain sts arrays scalars where
      f: "?fetched = (Inr sts, 2)"
      and a: "map (\<lambda>st. st ''global_temperature'') sts = map Some arrays"
      and s: "map (episode_scalar exact_numpy ''global_temperature'') arrays = map Inr scalars"
      and v: "m ''Global Temperature Rise'' =
          Some (NpFloat (np_round exact_numpy (np_mean exact_numpy scalars) (nat 2)))"
      by auto
    from fetched f a have "map Some arrays = map Some ?A" by simp
    then have "arrays = ?A" by (simp add: map_eq_Cons_conv)
    moreover have "map (episode_scalar exact_numpy ''global_temperature'') ?A =
        map Inr [Finite (5 / 2), Finite (9 / 4)]"
      by code_simp
    ultimately have "map Inr scalars =
        (map Inr [Finite (5 / 2), Finite (9 / 4)] :: (py_exception + np_float) list)"
      using s by simp
    then have "scalars = [Finite (5 / 2), Finite (9 / 4)]" by (simp add: map_eq_Cons_conv)
    moreover have "np_round exact_numpy (np_mean exact_numpy [Finite (5 / 2), Finite (9 / 4)]) (nat 2)
        = Finite (119 / 50)"
      by code_simp
    ultimately show ?thesis using v by simp
  qed

  have carbon: "m ''Global Carbon Mass'' = Some (PyInt 2)"
  proof -
    have row: "(''global_carbon_mass'', ''Global Carbon Mass'', 0) \<in> set METRICS_TO_LABEL_DICT"
      by (simp add: METRICS_TO_LABEL_DICT_def)
    from compute_metrics_feature_rule [OF m row] obtain sts arrays scalars q where
      f: "?fetched = (Inr sts, 2)"
      and a: "map (\<lambda>st. st ''global_carbon_mass'') sts = map Some arrays"
      and s: "map (episode_scalar exact_numpy ''global_carbon_mass'') arrays = map Inr scalars"
      and q: "np_mean exact_numpy scalars = Finite q"
      and v: "m ''Global Carbon Mass'' = Some (PyInt (py_round q))"
      by auto
    from fetched f a have "map Some arrays = map Some ?A" by simp
    then have "arrays = ?A" by (simp add: map_eq_Cons_conv)
    moreover have "map (episode_scalar exact_numpy ''global_carbon_mass'') ?A =
        map Inr [Finite (5 / 2), Finite (5 / 2)]"
      by code_simp
    ultimately have "map Inr scalars =
        (map Inr [Finite (5 / 2), Finite (5 / 2)] :: (py_exception + np_float) list)"
      using s by simp
    then have "scalars = [Finite (5 / 2), Finite (5 / 2)]" by (simp add: map_eq_Cons_conv)
    moreover have "np_mean exact_numpy [Finite (5 / 2), Finite (5 / 2)] = Finite (5 / 2)"
      by code_simp
    ultimately have qq: "q = 5 / 2" using q by simp
    have "py_round (5 / 2) = 2" by code_simp
    with v show ?thesis unfolding qq by simp
  qed

  have capital: "m ''Total Capital'' = Some (PyInt 9)"
  proof -
    have row: "(''capital_all_regions'', ''Total Capital'', 0) \<in> set METRICS_TO_LABEL_DICT"
      by (simp add: METRICS_TO_LABEL_DICT_def)
    from compute_metrics_feature_rule [OF m row] obtain sts arrays scalars q where
      f: "?fetched = (Inr sts, 2)"
      and a: "map (\<lambda>st. st ''capital_all_regions'') sts = map Some arrays"
      and s: "map (episode_scalar exact_numpy ''capital_all_regions'') arrays = map Inr scalars"
      and q: "np_mean exact_numpy scalars = Finite q"
      and v: "m ''Total Capital'' = Some (PyInt (py_round q))"
      by auto
    from fetched f a have "map Some arrays = map Some ?A" by simp
    then have "arrays = ?A" by (simp add: map_eq_Cons_conv)
    moreover have "map (episode_scalar exact_numpy ''capital_all_regions'') ?A =
        map Inr [Finite 9, Finite (37 / 4)]"
      by code_simp
    ultimately have "map Inr scalars =
        (map Inr [Finite 9, Finite (37 / 4)] :: (py_exception + np_float) list)"
      using s by simp
    then have "scalars = [Finite 9, Finite (37 / 4)]" by (simp add: map_eq_Cons_conv)
    moreover have "np_mean exact_numpy [Finite 9, Finite (37 / 4)] = Finite (73 / 8)"
      by code_simp
    ultimately have qq: "q = 73 / 8" using q by simp
    have "py_round (73 / 8) = 9" by code_simp
    with v show ?thesis unfolding qq by simp
  qed

  from m temperature carbon capital show ?thesis by blast
qed

section \<open>Properties of perform_evaluation\<close>

lemma compute_metrics_raises:
  assumes "compute_metrics np (Some fetch) (Some tr) framework n = Inl e"
  shows "framework \<notin> set available_frameworks"
  using assms
  by (auto simp: compute_metrics_def split: if_splits prod.splits option.splits)

text \<open>
  What a run returns once \<open>compute_metrics\<close> has returned, with success or without: on
  warpdrive the trainer that the computation left is handed to \<^verbatim>\<open>graceful_close\<close>,
  whose outcome decides the result; on any other framework the result is that of the
  computation and the trainer is left as the computation left it. The script does not look
  at the success flag before it closes the trainer.
\<close>

lemma perform_evaluation_after_metrics:
  assumes "0 < n"
    and "validate_dir env (Some rd) = Inr (framework, True, comment0)"
    and "run_unittests env rd = None"
    and "get_imports env framework = Inr b"
    and "path_exists env (path_join rd (''rice_'' @ format_str framework @ ''.yaml''))"
    and "open_file env (path_join rd (''rice_'' @ format_str framework @ ''.yaml'')) = Inr file_ptr"
    and "yaml_safe_load env file_ptr = Inr run_config"
    and "create_trainer b run_config seed = Inr tr0"
    and "load_model_checkpoints b tr0 rd = (None, tr1)"
    and "compute_metrics np (Some (fetch_episode_states b)) (Some tr1) framework n =
           Inr ((success, comment, m), tr2)"
  shows "perform_evaluation env np (Some rd) n seed =
           (if framework = Some ''warpdrive'' then
              (case graceful_close b tr2 of
                 (None, tr3) \<Rightarrow>
                   (Inr (framework, success, m, comment),
                    [Listdir, RunUnittests, GetImports, PathExists, OpenFile, SafeLoad,
                     CreateTrainer, LoadModelCheckpoints, ComputeMetrics, GracefulClose],
                    Some tr3)
               | (Some e, tr3) \<Rightarrow>
                   (Inr (framework, False, m, ''Count not fetch episode and compute metrics.''),
                    [Listdir, RunUnittests, GetImports, PathExists, OpenFile, SafeLoad,
                     CreateTrainer, LoadModelCheckpoints, ComputeMetrics, GracefulClose],
                    Some tr3))
            else
              (Inr (framework, success, m, comment),
               [Listdir, RunUnittests, GetImports, PathExists, OpenFile, SafeLoad,
                CreateTrainer, LoadModelCheckpoints, ComputeMetrics],
               Some tr2))"
  using assms by (simp add: perform_evaluation_def split: prod.splits option.splits)

text \<open>
  A run on a framework other than warpdrive does not depend on what
  \<^verbatim>\<open>graceful_close\<close> would do.
\<close>

lemma validate_dir_replace_graceful_close:
  "validate_dir (replace_graceful_close close env) results_dir = validate_dir env results_dir"
  by (cases results_dir) (simp_all add: validate_dir_def replace_graceful_close_def)

lemma get_imports_replace_graceful_close:
  "get_imports (replace_graceful_close close env) framework =
     (case get_imports env framework of
        Inl e \<Rightarrow> Inl e
      | Inr b \<Rightarrow> Inr (b\<lparr>graceful_close := close\<rparr>))"
  by (simp add: get_imports_def replace_graceful_close_def split: option.splits)

lemma perform_evaluation_ignores_graceful_close:
  assumes "validate_dir env (Some rd) = Inr (framework, success0, comment0)"
    and "framework \<noteq> Some ''warpdrive''"
  shows "perform_evaluation (replace_graceful_close close env) np (Some rd) n seed =
         perform_evaluation env np (Some rd) n seed"
proof -
  have rest: "run_unittests (replace_graceful_close close env) = run_unittests env"
    "path_exists (replace_graceful_close close env) = path_exists env"
    "open_file (replace_graceful_close close env) = open_file env"
    "yaml_safe_load (replace_graceful_close close env) = yaml_safe_load env"
    by (simp_all add: replace_graceful_close_def)
  show ?thesis
    using assms
    by (auto simp: perform_evaluation_def Let_def validate_dir_replace_graceful_close
        get_imports_replace_graceful_close rest
        split: sum.splits option.splits prod.splits)
qed

text \<open>
  Claim C4. A run reaches the metric computation and the computation succeeds. On
  warpdrive, \<open>perform_evaluation\<close> then applies \<^verbatim>\<open>graceful_close\<close> to the trainer
  that the computation left: the trainer of the run is the one that the shutdown returns,
  the shutdown is the last call of the run, right after the computation, and the run
  succeeds exactly when the shutdown does not raise. On rllib the run returns the result of
  the computation with the trainer untouched. And on a framework other than warpdrive no
  run, to whatever stage it gets, is changed by exchanging the \<^verbatim>\<open>graceful_close\<close>
  method: the shutdown is never performed there. (After a computation that has returned
  without success the script shuts a warpdrive trainer down in the same way, as
  \<open>perform_evaluation_after_metrics\<close> shows.)
\<close>

theorem graceful_close_warpdrive_only:
  assumes "validate_dir env (Some rd) = Inr (framework, success0, comment0)"
  shows "(0 < n \<and> success0
          \<and> run_unittests env rd = None
          \<and> get_imports env framework = Inr b
          \<and> path_exists env (path_join rd (''rice_'' @ format_str framework @ ''.yaml''))
          \<and> open_file env (path_join rd (''rice_'' @ format_str framework @ ''.yaml'')) = Inr file_ptr
          \<and> yaml_safe_load env file_ptr = Inr run_config
          \<and> create_trainer b run_config seed = Inr tr0
          \<and> load_model_checkpoints b tr0 rd = (None, tr1)
          \<and> compute_metrics np (Some (fetch_episode_states b)) (Some tr1) framework n =
               Inr ((True, comment, m), tr2) \<longrightarrow>
          (if framework = Some ''warpdrive''
           then \<exists>err tr3. graceful_close b tr2 = (err, tr3) \<and>
                  perform_evaluation env np (Some rd) n seed =
                    (Inr (framework, err = None, m,
                          if err = None then comment
                          else ''Count not fetch episode and compute metrics.''),
                     [Listdir, RunUnittests, GetImports, PathExists, OpenFile, SafeLoad,
                      CreateTrainer, LoadModelCheckpoints, ComputeMetrics, GracefulClose],
                     Some tr3)
           else perform_evaluation env np (Some rd) n seed =
                  (Inr (framework, True, m, comment),
                   [Listdir, RunUnittests, GetImports, PathExists, OpenFile, SafeLoad,
                    CreateTrainer, LoadModelCheckpoints, ComputeMetrics],
                   Some tr2)))
       \<and> (framework \<noteq> Some ''warpdrive'' \<longrightarrow>
            (\<forall>close n seed.
               perform_evaluation (replace_graceful_close close env) np (Some rd) n seed =
               perform_evaluation env np (Some rd) n seed))"
proof (intro conjI impI allI)
  assume a: "0 < n \<and> success0
          \<and> run_unittests env rd = None
          \<and> get_imports env framework = Inr b
          \<and> path_exists env (path_join rd (''rice_'' @ format_str framework @ ''.yaml''))
          \<and> open_file env (path_join rd (''rice_'' @ format_str framework @ ''.yaml'')) = Inr file_ptr
          \<and> yaml_safe_load env file_ptr = Inr run_config
          \<and> create_trainer b run_config seed = Inr tr0
          \<and> load_model_checkpoints b tr0 rd = (None, tr1)
          \<and> compute_metrics np (Some (fetch_episode_states b)) (Some tr1) framework n =
               Inr ((True, comment, m), tr2)"
  with assms have v: "validate_dir env (Some rd) = Inr (framework, True, comment0)" by simp
  obtain err tr3 where c: "graceful_close b tr2 = (err, tr3)" by (cases "graceful_close b tr2")
  have "perform_evaluation env np (Some rd) n seed =
           (if framework = Some ''warpdrive'' then
              (case graceful_close b tr2 of
                 (None, tr3) \<Rightarrow>
                   (Inr (framework, True, m, comment),
                    [Listdir, RunUnittests, GetImports, PathExists, OpenFile, SafeLoad,
                     CreateTrainer, LoadModelCheckpoints, ComputeMetrics, GracefulClose],
                    Some tr3)
               | (Some e, tr3) \<Rightarrow>
                   (Inr (framework, False, m, ''Count not fetch episode and compute metrics.''),
                    [Listdir, RunUnittests, GetImports, PathExists, OpenFile, SafeLoad,
                     CreateTrainer, LoadModelCheckpoints, ComputeMetrics, GracefulClose],
                    Some tr3))
            else
              (Inr (framework, True, m, comment),
               [Listdir, RunUnittests, GetImports, PathExists, OpenFile, SafeLoad,
                CreateTrainer, LoadModelCheckpoints, ComputeMetrics],
               Some tr2))"
  proof (rule perform_evaluation_after_metrics [OF _ v])
    from a show "0 < n" by simp
    from a show "run_unittests env rd = None" by simp
    from a show "get_imports env framework = Inr b" by simp
    from a show "path_exists env (path_join rd (''rice_'' @ format_str framework @ ''.yaml''))"
      by simp
    from a show "open_file env (path_join rd (''rice_'' @ format_str framework @ ''.yaml'')) =
        Inr file_ptr"
      by simp
    from a show "yaml_safe_load env file_ptr = Inr run_config" by simp
    from a show "create_trainer b run_config seed = Inr tr0" by simp
    from a show "load_model_checkpoints b tr0 rd = (None, tr1)" by simp
    from a show "compute_metrics np (Some (fetch_episode_states b)) (Some tr1) framework n =
        Inr ((True, comment, m), tr2)"
      by simp
  qed
  with c show "if framework = Some ''warpdrive''
           then \<exists>err tr3. graceful_close b tr2 = (err, tr3) \<and>
                  perform_evaluation env np (Some rd) n seed =
                    (Inr (framework, err = None, m,
                          if err = None then comment
                          else ''Count not fetch episode and compute metrics.''),
                     [Listdir, RunUnittests, GetImports, PathExists, OpenFile, SafeLoad,
                      CreateTrainer, LoadModelCheckpoints, ComputeMetrics, GracefulClose],
                     Some tr3)
           else perform_evaluation env np (Some rd) n seed =
                  (Inr (framework, True, m, comment),
                   [Listdir, RunUnittests, GetImports, PathExists, OpenFile, SafeLoad,
                    CreateTrainer, LoadModelCheckpoints, ComputeMetrics],
                   Some tr2)"
    by (cases err) auto
next
  fix close n' seed'
  assume "framework \<noteq> Some ''warpdrive''"
  with assms show "perform_evaluation (replace_graceful_close close env) np (Some rd) n' seed' =
      perform_evaluation env np (Some rd) n' seed'"
    by (rule perform_evaluation_ignores_graceful_close)
qed

text \<open>
  The complete warpdrive submission leaves its trainer shut down after two episodes; the
  same submission as an rllib directory leaves the trainer open after two episodes, and is
  the same run with a \<^verbatim>\<open>graceful_close\<close> that would raise.
\<close>

theorem graceful_close_warpdrive_only_witness:
  "snd (snd (perform_evaluation example_env exact_numpy (Some ''results'') 2 (Some 123456))) =
     Some (2, True)
   \<and> fst (snd (perform_evaluation example_env exact_numpy (Some ''results'') 2 (Some 123456))) =
     [Listdir, RunUnittests, GetImports, PathExists, OpenFile, SafeLoad,
      CreateTrainer, LoadModelCheckpoints, ComputeMetrics, GracefulClose]
   \<and> snd (snd (perform_evaluation rllib_env exact_numpy (Some ''results'') 2 (Some 123456))) =
     Some (2, False)
   \<and> fst (snd (perform_evaluation rllib_env exact_numpy (Some ''results'') 2 (Some 123456))) =
     [Listdir, RunUnittests, GetImports, PathExists, OpenFile, SafeLoad,
      CreateTrainer, LoadModelCheckpoints, ComputeMetrics]
   \<and> perform_evaluation
       (replace_graceful_close (\<lambda>trainer. (Some (RuntimeError ''close failed''), trainer)) rllib_env)
       exact_numpy (Some ''results'') 2 (Some 123456) =
     perform_evaluation rllib_env exact_numpy (Some ''results'') 2 (Some 123456)"
proof -
  have metrics: "case compute_metrics exact_numpy (Some (fetch_episode_states example_backend))
        (Some (0, False)) fw 2 of
      Inl e \<Rightarrow> False
    | Inr ((s, c, m), tr') \<Rightarrow> s \<and> tr' = (2, False)"
    if "fw = Some ''warpdrive'' \<or> fw = Some ''rllib''" for fw
    using that by (elim disjE; hypsubst) code_simp+
  have obtain_metrics: "\<exists>c m. compute_metrics exact_numpy (Some (fetch_episode_states example_backend))
        (Some (0, False)) fw 2 = Inr ((True, c, m), (2, False))"
    if "fw = Some ''warpdrive'' \<or> fw = Some ''rllib''" for fw
    using metrics [OF that] by (auto split: sum.splits prod.splits)

  have vw: "validate_dir example_env (Some ''results'') =
      Inr (Some ''warpdrive'', True, ''Valid submission'')"
    by (simp add: validate_dir_def example_env_def warpdrive_files_def)
  obtain cw mw where mw: "compute_metrics exact_numpy (Some (fetch_episode_states example_backend))
        (Some (0, False)) (Some ''warpdrive'') 2 = Inr ((True, cw, mw), (2, False))"
    using obtain_metrics [of "Some ''warpdrive''"] by auto
  have "0 < (2::int) \<and> True
      \<and> run_unittests example_env ''results'' = None
      \<and> get_imports example_env (Some ''warpdrive'') = Inr example_backend
      \<and> path_exists example_env
          (path_join ''results'' (''rice_'' @ format_str (Some ''warpdrive'') @ ''.yaml''))
      \<and> open_file example_env
          (path_join ''results'' (''rice_'' @ format_str (Some ''warpdrive'') @ ''.yaml'')) =
            Inr ''name: rice''
      \<and> yaml_safe_load example_env ''name: rice'' = Inr ''name: rice''
      \<and> create_trainer example_backend ''name: rice'' (Some 123456) = Inr (0, False)
      \<and> load_model_checkpoints example_backend (0, False) ''results'' = (None, (0, False))
      \<and> compute_metrics exact_numpy (Some (fetch_episode_states example_backend))
           (Some (0, False)) (Some ''warpdrive'') 2 = Inr ((True, cw, mw), (2, False))"
    using mw by (simp add: example_env_def example_backend_def get_imports_def)
  from graceful_close_warpdrive_only [OF vw, THEN conjunct1, rule_format, OF this]
  have warp: "snd (snd (perform_evaluation example_env exact_numpy (Some ''results'') 2 (Some 123456)))
        = Some (2, True)
      \<and> fst (snd (perform_evaluation example_env exact_numpy (Some ''results'') 2 (Some 123456))) =
        [Listdir, RunUnittests, GetImports, PathExists, OpenFile, SafeLoad,
         CreateTrainer, LoadModelCheckpoints, ComputeMetrics, GracefulClose]"
    by (auto simp: example_backend_def)

  have vr: "validate_dir rllib_env (Some ''results'') =
      Inr (Some ''rllib'', True, ''Valid submission'')"
    by (simp add: validate_dir_def rllib_env_def example_env_def rllib_files_def)
  obtain cr mr where mr: "compute_metrics exact_numpy (Some (fetch_episode_states example_backend))
        (Some (0, False)) (Some ''rllib'') 2 = Inr ((True, cr, mr), (2, False))"
    using obtain_metrics [of "Some ''rllib''"] by auto
  have "0 < (2::int) \<and> True
      \<and> run_unittests rllib_env ''results'' = None
      \<and> get_imports rllib_env (Some ''rllib'') = Inr example_backend
      \<and> path_exists rllib_env
          (path_join ''results'' (''rice_'' @ format_str (Some ''rllib'') @ ''.yaml''))
      \<and> open_file rllib_env
          (path_join ''results'' (''rice_'' @ format_str (Some ''rllib'') @ ''.yaml'')) =
            Inr ''name: rice''
      \<and> yaml_safe_load rllib_env ''name: rice'' = Inr ''name: rice''
      \<and> create_trainer example_backend ''name: rice'' (Some 123456) = Inr (0, False)
      \<and> load_model_checkpoints example_backend (0, False) ''results'' = (None, (0, False))
      \<and> compute_metrics exact_numpy (Some (fetch_episode_states example_backend))
           (Some (0, False)) (Some ''rllib'') 2 = Inr ((True, cr, mr), (2, False))"
    using mr by (simp add: rllib_env_def example_env_def example_backend_def get_imports_def)
  from graceful_close_warpdrive_only [OF vr, THEN conjunct1, rule_format, OF this]
  have rllib: "snd (snd (perform_evaluation rllib_env exact_numpy (Some ''results'') 2 (Some 123456)))
        = Some (2, False)
      \<and> fst (snd (perform_evaluation rllib_env exact_numpy (Some ''results'') 2 (Some 123456))) =
        [Listdir, RunUnittests, GetImports, PathExists, OpenFile, SafeLoad,
         CreateTrainer, LoadModelCheckpoints, ComputeMetrics]"
    by simp
  have "Some ''rllib'' \<noteq> Some ''warpdrive''" by simp
  from graceful_close_warpdrive_only [OF vr, THEN conjunct2, rule_format, OF this]
  have "perform_evaluation
       (replace_graceful_close (\<lambda>trainer. (Some (RuntimeError ''close failed''), trainer)) rllib_env)
       exact_numpy (Some ''results'') 2 (Some 123456) =
     perform_evaluation rllib_env exact_numpy (Some ''results'') 2 (Some 123456)" .
  with warp rllib show ?thesis by simp
qed

text \<open>
  Claim C8, as the script has it. After the validation, the unit tests and the import of
  the functions of the backend have succeeded, a configuration file
  \<^verbatim>\<open>rice_<framework>.yaml\<close> that does not exist in the results directory gives
  success false, no metrics and the comment \<^verbatim>\<open>The run configuration is missing in\<close>
  followed by the directory; nothing is raised, and no later stage runs.
\<close>

theorem perform_evaluation_missing_config:
  assumes "0 < n"
    and "validate_dir env (Some rd) = Inr (Some fw, True, comment)"
    and "run_unittests env rd = None"
    and "get_imports env (Some fw) = Inr b"
    and "\<not> path_exists env (path_join rd (''rice_'' @ fw @ ''.yaml''))"
  shows "perform_evaluation env np (Some rd) n seed =
           (Inr (Some fw, False, Map.empty, ''The run configuration is missing in '' @ rd @ ''.''),
            [Listdir, RunUnittests, GetImports, PathExists], None)"
  using assms by (simp add: perform_evaluation_def format_str_def)

text \<open>A listed configuration file that does not exist (a dangling link).\<close>

theorem perform_evaluation_missing_config_witness:
  "perform_evaluation (example_env\<lparr>path_exists := (\<lambda>f. f \<noteq> ''results/rice_warpdrive.yaml'')\<rparr>)
     exact_numpy (Some ''results'') 5 (Some 123456) =
   (Inr (Some ''warpdrive'', False, Map.empty, ''The run configuration is missing in results.''),
    [Listdir, RunUnittests, GetImports, PathExists], None)"
proof -
  let ?env = "example_env\<lparr>path_exists := (\<lambda>f. f \<noteq> ''results/rice_warpdrive.yaml'')\<rparr>"
  have h1: "(0::int) < 5" by simp
  have h2: "validate_dir ?env (Some ''results'') = Inr (Some ''warpdrive'', True, ''Valid submission'')"
    by (simp add: validate_dir_def example_env_def warpdrive_files_def)
  have h3: "run_unittests ?env ''results'' = None" by (simp add: example_env_def)
  have h4: "get_imports ?env (Some ''warpdrive'') = Inr example_backend"
    by (simp add: get_imports_def example_env_def)
  have h5: "\<not> path_exists ?env (path_join ''results'' (''rice_'' @ ''warpdrive'' @ ''.yaml''))"
    by (simp add: path_join_def)
  from perform_evaluation_missing_config [OF h1 h2 h3 h4 h5, of exact_numpy "Some 123456"]
  show ?thesis by simp
qed

text \<open>
  The claim as it is written asks for the validation and the unit tests only. Between the
  unit tests and the check of the configuration file the script imports the training
  module, and when this import raises the comment is that of the outermost handler, although
  the configuration file is missing.
\<close>

theorem perform_evaluation_missing_config_counterexample:
  "validate_dir
     (example_env\<lparr>import_module := (\<lambda>m. Inl (ImportError ''No module named pycuda'')),
                  path_exists := (\<lambda>f. False)\<rparr>)
     (Some ''results'') = Inr (Some ''warpdrive'', True, ''Valid submission'')
   \<and> run_unittests
       (example_env\<lparr>import_module := (\<lambda>m. Inl (ImportError ''No module named pycuda'')),
                    path_exists := (\<lambda>f. False)\<rparr>)
       ''results'' = None
   \<and> \<not> path_exists
       (example_env\<lparr>import_module := (\<lambda>m. Inl (ImportError ''No module named pycuda'')),
                    path_exists := (\<lambda>f. False)\<rparr>)
       (path_join ''results'' ''rice_warpdrive.yaml'')
   \<and> perform_evaluation
       (example_env\<lparr>import_module := (\<lambda>m. Inl (ImportError ''No module named pycuda'')),
                    path_exists := (\<lambda>f. False)\<rparr>)
       exact_numpy (Some ''results'') 5 (Some 123456) =
     (Inr (Some ''warpdrive'', False, Map.empty, ''Unit tests were not successful.''),
      [Listdir, RunUnittests, GetImports], None)"
  by (simp add: perform_evaluation_def validate_dir_def get_imports_def example_env_def
      warpdrive_files_def)

text \<open>
  Claim C9. When the configuration file exists and is opened, and
  \<^verbatim>\<open>yaml.safe_load\<close> raises on it, \<open>perform_evaluation\<close> returns success false
  with the comment of the outermost handler, \<^verbatim>\<open>Unit tests were not successful.\<close>,
  and no metrics; no trainer is created.
\<close>

theorem perform_evaluation_yaml_error:
  assumes "0 < n"
    and "validate_dir env (Some rd) = Inr (Some fw, True, comment)"
    and "run_unittests env rd = None"
    and "get_imports env (Some fw) = Inr b"
    and "path_exists env (path_join rd (''rice_'' @ fw @ ''.yaml''))"
    and "open_file env (path_join rd (''rice_'' @ fw @ ''.yaml'')) = Inr file_ptr"
    and "yaml_safe_load env file_ptr = Inl e"
  shows "perform_evaluation env np (Some rd) n seed =
           (Inr (Some fw, False, Map.empty, ''Unit tests were not successful.''),
            [Listdir, RunUnittests, GetImports, PathExists, OpenFile, SafeLoad], None)"
  using assms by (simp add: perform_evaluation_def format_str_def)

text \<open>A configuration file that is not well-formed YAML.\<close>

theorem perform_evaluation_yaml_error_witness:
  "perform_evaluation
     (example_env\<lparr>open_file := (\<lambda>f. Inr ''name: [rice''),
                  yaml_safe_load := (\<lambda>text. Inl (YAMLError ''while parsing a flow sequence''))\<rparr>)
     exact_numpy (Some ''results'') 5 (Some 123456) =
   (Inr (Some ''warpdrive'', False, Map.empty, ''Unit tests were not successful.''),
    [Listdir, RunUnittests, GetImports, PathExists, OpenFile, SafeLoad], None)"
proof -
  let ?env = "example_env\<lparr>open_file := (\<lambda>f. Inr ''name: [rice''),
                  yaml_safe_load := (\<lambda>text. Inl (YAMLError ''while parsing a flow sequence''))\<rparr>"
  have h1: "(0::int) < 5" by simp
  have h2: "validate_dir ?env (Some ''results'') = Inr (Some ''warpdrive'', True, ''Valid submission'')"
    by (simp add: validate_dir_def example_env_def warpdrive_files_def)
  have h3: "run_unittests ?env ''results'' = None" by (simp add: example_env_def)
  have h4: "get_imports ?env (Some ''warpdrive'') = Inr example_backend"
    by (simp add: get_imports_def example_env_def)
  have h5: "path_exists ?env (path_join ''results'' (''rice_'' @ ''warpdrive'' @ ''.yaml''))"
    by (simp add: example_env_def)
  have h6: "open_file ?env (path_join ''results'' (''rice_'' @ ''warpdrive'' @ ''.yaml'')) =
      Inr ''name: [rice''"
    by simp
  have h7: "yaml_safe_load ?env ''name: [rice'' = Inl (YAMLError ''while parsing a flow sequence'')"
    by simp
  from perform_evaluation_yaml_error [OF h1 h2 h3 h4 h5 h6 h7, of exact_numpy "Some 123456"]
  show ?thesis by simp
qed

lemma compute_metrics_failure_empty:
  assumes "compute_metrics np fetch' trainer framework n = Inr ((False, comment, m), tr')"
  shows "m = Map.empty"
  using assms
  by (auto simp: compute_metrics_def split: if_splits prod.splits option.splits)

text \<open>
  A run that returns success false with a metric has called \<^verbatim>\<open>graceful_close\<close> on
  a warpdrive trainer after the metric computation; on every other path a failure comes
  with the empty mapping.
\<close>

lemma perform_evaluation_failure_metrics:
  assumes "perform_evaluation env np results_dir n seed =
             (Inr (framework, False, m, comment), trace, trainer)"
    and "m \<noteq> Map.empty"
  shows "trace = [Listdir, RunUnittests, GetImports, PathExists, OpenFile, SafeLoad,
                  CreateTrainer, LoadModelCheckpoints, ComputeMetrics, GracefulClose]
       \<and> comment = ''Count not fetch episode and compute metrics.''
       \<and> framework = Some ''warpdrive''"
  using assms
  by (auto simp: perform_evaluation_def Let_def
      dest!: compute_metrics_failure_empty
      split: option.splits sum.splits prod.splits if_splits)

text \<open>
  Claim C2 at an input where it fails. On a complete warpdrive submission whose trainer
  raises in \<^verbatim>\<open>graceful_close\<close>, after \<open>compute_metrics\<close> has returned the eight
  metrics, \<open>perform_evaluation\<close> returns success false together with all eight metrics:
  the handler that sets the flag leaves \<^verbatim>\<open>eval_metrics\<close> as it was assigned.
\<close>

theorem perform_evaluation_close_failure_keeps_metrics:
  "case perform_evaluation close_fails_env exact_numpy (Some ''results'') 2 (Some 123456) of
     (Inl e, trace, trainer) \<Rightarrow> False
   | (Inr (framework, success, eval_metrics, comment), trace, trainer) \<Rightarrow>
       framework = Some ''warpdrive'' \<and> success = False
       \<and> comment = ''Count not fetch episode and compute metrics.''
       \<and> map eval_metrics (map (fst \<circ> snd) METRICS_TO_LABEL_DICT) =
           [Some (NpFloat (Finite 10)), Some (NpFloat (Finite (5 / 2))), Some (PyInt 3),
            Some (PyInt 10), Some (PyInt 10), Some (PyInt 10), Some (PyInt 10),
            Some (NpFloat (Finite 10))]
       \<and> trace = [Listdir, RunUnittests, GetImports, PathExists, OpenFile, SafeLoad,
                  CreateTrainer, LoadModelCheckpoints, ComputeMetrics, GracefulClose]
       \<and> trainer = Some (2, False)"
  by code_simp

end
